theory Spec2Isabelle
  imports Main "HOL-Library.Multiset" "HOL-Library.Log_Nat"
begin

section \<open>Values at the HTTP boundary\<close>

text \<open>
  Object ids are natural numbers and instants are milliseconds since the epoch, as
  \<open>Date.now()\<close> and \<open>Date.prototype.valueOf\<close> give them.
\<close>

type_synonym oid = nat
type_synonym time = int

text \<open>
  A field of \<open>req.body\<close> as the controllers observe it: \<open>!x\<close> holds of a missing field, of
  the empty string and of the number zero (\<open>Falsy\<close>); any other field is \<open>Truthy\<close> and
  carries its value. The value of \<open>startingBid\<close> is the number the store's cast reads from
  it, NaN where it reads none.
\<close>

datatype 'a field = Falsy | Truthy 'a

text \<open>
  A truthy date field has two readings, which the model keeps apart. \<open>newDate\<close> is the
  time value of \<open>new Date(x)\<close>, with \<open>None\<close> for the NaN of an Invalid Date; the controllers
  compare it. \<open>castDate\<close> is what the store's cast of \<open>x\<close> to a Date gives, with \<open>None\<close> where
  the cast fails; the store writes it. The two differ on a string of digits, which
  \<open>new Date\<close> does not parse and the store's cast reads as milliseconds.
\<close>

record date_input =
  raw :: string
  newDate :: "time option"
  castDate :: "time option"

section \<open>JavaScript numbers\<close>

text \<open>
  A JavaScript number is an IEEE-754 binary64 value: NaN, one of the two infinities, or
  a finite value, given here by the rational number it denotes. The two zeros are
  identified; no operation of the controllers tells them apart. Not every rational is a
  double: the doubles are the values that \<open>round64\<close> below leaves as they are.
\<close>

datatype jsnum = NaN | PosInfinity | NegInfinity | Fin rat

text \<open>Rounding a rational to an integer, a tie going to the even neighbour.\<close>

definition roundTiesToEven :: "rat \<Rightarrow> int" where
  "roundTiesToEven x =
     (let f = \<lfloor>x\<rfloor>; r = x - of_int f
      in if r < 1 / 2 then f else if 1 / 2 < r then f + 1 else if even f then f else f + 1)"

text \<open>
  Every finite double is a whole multiple of \<open>2^-1074\<close>, the least positive double, and
  has at most 53 significant bits; the least power of two that is too large for a double
  is \<open>2^1024\<close>, which is \<open>2^2098\<close> such units.
\<close>

definition subnormal_bits :: nat where
  "subnormal_bits = 1074"

definition overflow_bits :: nat where
  "overflow_bits = 2098"

text \<open>
  \<open>round64\<close> is the rounding of every arithmetic operation (round to nearest, ties to
  even): the value is taken in units of \<open>2^-1074\<close>, the bits beyond its first 53 are
  rounded away, and a result that reaches \<open>2^1024\<close> is the infinity of its sign.
\<close>

definition round64 :: "rat \<Rightarrow> jsnum" where
  "round64 r =
     (let x = r * 2 ^ subnormal_bits;
          s = nat (bitlen \<lfloor>\<bar>x\<bar>\<rfloor> - 53);
          k = roundTiesToEven (x / 2 ^ s) * 2 ^ s
      in if \<bar>k\<bar> \<ge> 2 ^ overflow_bits then (if r < 0 then NegInfinity else PosInfinity)
         else Fin (of_int k / 2 ^ subnormal_bits))"

text \<open>The operators \<open>+\<close> and \<open>-\<close> on numbers.\<close>

fun js_add :: "jsnum \<Rightarrow> jsnum \<Rightarrow> jsnum" where
  "js_add (Fin x) (Fin y) = round64 (x + y)"
| "js_add NaN b = NaN"
| "js_add a NaN = NaN"
| "js_add PosInfinity NegInfinity = NaN"
| "js_add NegInfinity PosInfinity = NaN"
| "js_add PosInfinity b = PosInfinity"
| "js_add NegInfinity b = NegInfinity"
| "js_add a PosInfinity = PosInfinity"
| "js_add a NegInfinity = NegInfinity"

fun js_neg :: "jsnum \<Rightarrow> jsnum" where
  "js_neg NaN = NaN"
| "js_neg PosInfinity = NegInfinity"
| "js_neg NegInfinity = PosInfinity"
| "js_neg (Fin x) = Fin (- x)"

definition js_sub :: "jsnum \<Rightarrow> jsnum \<Rightarrow> jsnum" where
  "js_sub a b = js_add a (js_neg b)"

section \<open>Requests\<close>

text \<open>
  The path parameter \<open>req.params.id\<close> as \<open>mongoose.Types.ObjectId.isValid\<close> sees it.
\<close>

datatype id_param = Malformed | Oid oid

record upload_file =
  mimetype :: string
  tempFilePath :: string

record body =
  req_title :: "string field"
  req_description :: "string field"
  req_category :: "string field"
  req_condition :: "string field"
  req_startingBid :: "jsnum field"
  req_startTime :: "date_input field"
  req_endTime :: "date_input field"

text \<open>
  The request: \<open>req.files\<close> (absent, or the uploaded files by field name), \<open>req.body\<close>,
  \<open>req.user._id\<close> as the authentication layer set it, and \<open>req.params.id\<close>.
\<close>

record req =
  files :: "(string \<times> upload_file) list option"
  body :: body
  user_id :: oid
  params_id :: id_param

section \<open>Errors and the error middleware\<close>

text \<open>
  A JavaScript error object with the properties \<open>errorMiddleware\<close> reads. \<open>statusCode\<close> is
  \<open>None\<close> where the property is undefined; \<open>errors\<close> holds the messages of the
  sub-errors of a store validation error.
\<close>

record js_error =
  name :: string
  message :: string
  statusCode :: "nat option"
  path :: string
  val :: string
  errors :: "string list"

text \<open>
  \<open>class ErrorHandler extends Error\<close>: the constructor passes the message on and stores
  the status code it was given, undefined when the caller gave none. The class does not
  set \<open>name\<close>, which stays \<open>Error\<close>.
\<close>

definition ErrorHandler :: "string \<Rightarrow> nat option \<Rightarrow> js_error" where
  "ErrorHandler msg code =
     \<lparr>name = ''Error'', message = msg, statusCode = code, path = [], val = [], errors = []\<rparr>"

text \<open>
  The TypeError of reading a property of \<open>null\<close> or \<open>undefined\<close>; the engine's message
  text is abbreviated.
\<close>

definition TypeError :: "string \<Rightarrow> js_error" where
  "TypeError prop =
     \<lparr>name = ''TypeError'', message = ''Cannot read properties of null, reading '' @ prop,
      statusCode = None, path = [], val = [], errors = []\<rparr>"

text \<open>
  What the store raises from an update when a value cannot be cast to the type of its
  path. The library's message text is abbreviated.
\<close>

definition CastError :: "string \<Rightarrow> string \<Rightarrow> js_error" where
  "CastError p v =
     \<lparr>name = ''CastError'', message = ''Cast to date failed for value '' @ v @ '' at path '' @ p,
      statusCode = None, path = p, val = v, errors = []\<rparr>"

text \<open>\<open>Array.prototype.join\<close>.\<close>

fun join :: "string \<Rightarrow> string list \<Rightarrow> string" where
  "join sep [] = []"
| "join sep [x] = x"
| "join sep (x # y # ys) = x @ sep @ join sep (y # ys)"

text \<open>The JSON body and status the error middleware sends.\<close>

record error_response =
  status :: "nat option"
  success :: bool
  error_message :: string

text \<open>
  \<open>errorMiddleware\<close>, statement by statement. \<open>err.statusCode || 500\<close> replaces an
  undefined (or zero) status code by 500 and an empty message by the default one; each
  of the four tests on \<open>err.name\<close> then replaces the error by a fresh \<open>ErrorHandler\<close>.
\<close>

definition errorMiddleware :: "js_error \<Rightarrow> error_response" where
  "errorMiddleware err0 =
     (let err1 = err0\<lparr>statusCode :=
                   (case statusCode err0 of
                      None \<Rightarrow> Some 500
                    | Some c \<Rightarrow> if c = 0 then Some 500 else Some c)\<rparr>;
          err2 = err1\<lparr>message :=
                   (if message err1 = [] then ''Internal Server Error'' else message err1)\<rparr>;
          err3 = (if name err2 = ''JsonWebTokenError''
                  then ErrorHandler ''Invalid token. Please try again.'' (Some 401)
                  else err2);
          err4 = (if name err3 = ''TokenExpiredError''
                  then ErrorHandler ''Token has expired. Please login again.'' (Some 401)
                  else err3);
          err5 = (if name err4 = ''CastError''
                  then ErrorHandler (''Invalid '' @ path err4 @ '': '' @ val err4) (Some 400)
                  else err4);
          err6 = (if name err5 = ''ValidationError''
                  then ErrorHandler (join '', '' (errors err5)) (Some 400)
                  else err5)
      in \<lparr>status = statusCode err6, success = False, error_message = message err6\<rparr>)"

text \<open>
  How a controller ends: \<open>return next(err)\<close>, an exception that leaves the controller
  (the rejected promise of the async function), or \<open>res.status(code).json(payload)\<close>.
\<close>

datatype 'a outcome = Next js_error | Thrown js_error | Json nat 'a

section \<open>Documents and collections\<close>

text \<open>
  Modelled from the spec: the Auction, Bid and User documents. The schema files
  (\<open>models/auctionSchema.js\<close>, \<open>models/bidSchema.js\<close>, \<open>models/userSchema.js\<close>) are not
  among the sources; the fields are the ones the controllers read and write, with the
  types of the spec's data model: timestamps for the schedule, JavaScript numbers for
  the amounts and counters. The type parameter of an auction is its \<open>bids\<close> field: ids in
  the store, \<open>None\<close> where a projection leaves the field out, documents once populated.

  The amount of a bid is read by the comparator of the detail view only, which looks at
  the sign of a difference of two amounts, and rounding never changes the sign of a
  difference of two doubles. A bid therefore keeps an integer that stands for its
  (finite) amount in the order of the numbers: the amount itself where the amounts are
  whole, and in general its multiple of \<open>2^-1074\<close>, of which every finite double is a
  whole multiple.
\<close>

record image_ref =
  public_id :: string
  url :: string

record 'b auction =
  a_id :: oid
  title :: string
  description :: string
  category :: string
  condition :: string
  startingBid :: jsnum
  startTime :: time
  endTime :: time
  currentBid :: jsnum
  highestBidder :: "oid option"
  bids :: 'b
  commissionCalculated :: bool
  image_doc :: image_ref
  createdBy :: oid

record user =
  u_id :: oid
  moneySpent :: jsnum
  auctionsWon :: jsnum
  unpaidCommission :: jsnum

record bid =
  b_id :: oid
  auctionItem :: oid
  bidder :: oid
  amount :: int

text \<open>
  The three collections, each in the store's natural order. The store answers every
  operation: connection failures and timeouts are outside the model.
\<close>

record store =
  Auction :: "oid list auction list"
  User :: "user list"
  Bid :: "bid list"

text \<open>
  \<open>Model.findById\<close> is the first document with the id; an update of one document
  (\<open>findByIdAndUpdate\<close>, \<open>doc.save()\<close>) rewrites the first document that matches.
\<close>

definition Auction_findById :: "store \<Rightarrow> oid \<Rightarrow> oid list auction option" where
  "Auction_findById s i = find (\<lambda>a. a_id a = i) (Auction s)"

definition User_findById :: "store \<Rightarrow> oid \<Rightarrow> user option" where
  "User_findById s i = find (\<lambda>u. u_id u = i) (User s)"

definition Bid_findById :: "store \<Rightarrow> oid \<Rightarrow> bid option" where
  "Bid_findById s i = find (\<lambda>b. b_id b = i) (Bid s)"

fun updateOne :: "('a \<Rightarrow> bool) \<Rightarrow> ('a \<Rightarrow> 'a) \<Rightarrow> 'a list \<Rightarrow> 'a list" where
  "updateOne p f [] = []"
| "updateOne p f (d # ds) = (if p d then f d # ds else d # updateOne p f ds)"

text \<open>The same auction with another \<open>bids\<close> field.\<close>

definition withBids :: "'c \<Rightarrow> 'b auction \<Rightarrow> 'c auction" where
  "withBids v a =
     \<lparr>a_id = a_id a, title = title a, description = description a, category = category a,
      condition = condition a, startingBid = startingBid a, startTime = startTime a,
      endTime = endTime a, currentBid = currentBid a, highestBidder = highestBidder a,
      bids = v, commissionCalculated = commissionCalculated a, image_doc = image_doc a,
      createdBy = createdBy a\<rparr>"

section \<open>Dates\<close>

text \<open>
  \<open>new Date(x) < Date.now()\<close> and \<open>new Date(x) >= new Date(y)\<close> compare time values; every
  comparison with the NaN of an Invalid Date is false.
\<close>

definition date_lt :: "time option \<Rightarrow> time \<Rightarrow> bool" where
  "date_lt d n = (case d of None \<Rightarrow> False | Some t \<Rightarrow> t < n)"

definition date_ge :: "time option \<Rightarrow> time option \<Rightarrow> bool" where
  "date_ge d e =
     (case d of None \<Rightarrow> False
      | Some t \<Rightarrow> (case e of None \<Rightarrow> False | Some t' \<Rightarrow> t \<ge> t'))"

section \<open>The collaborators of a create request\<close>

text \<open>
  What \<open>cloudinary.uploader.upload\<close> does is an input of the model: it rejects with a
  message, resolves to nothing, resolves to a response carrying an \<open>error\<close>, or resolves
  to the stored image's \<open>public_id\<close> and \<open>secure_url\<close>.
\<close>

datatype upload_result =
    UploadThrows string
  | UploadFalsy
  | UploadError
  | Uploaded string string

definition allowedFormats :: "string list" where
  "allowedFormats = [''image/png'', ''image/jpeg'', ''image/webp'']"

text \<open>
  The store's validation error of a document of a model, over the paths whose value
  could not be cast (path, type and value). The library's message text is abbreviated.
\<close>

definition validationError :: "string \<Rightarrow> (string \<times> string \<times> string) list \<Rightarrow> js_error" where
  "validationError model bad =
     \<lparr>name = ''ValidationError'',
      message = model @ '' validation failed: '' @
        join '', '' (map (\<lambda>(p, ty, v). p @ '': Cast to '' @ ty @ '' failed for value '' @ v) bad),
      statusCode = None, path = [], val = [],
      errors = map (\<lambda>(p, ty, v). ''Cast to '' @ ty @ '' failed for value '' @ v @ '' at path '' @ p)
                 bad\<rparr>"

text \<open>
  Modelled from the spec: the defaults of the schema, which is not among the sources
  (\<open>currentBid = 0\<close>, no highest bidder, no bids, \<open>commissionCalculated = false\<close>). The
  other fields of \<open>Auction.create\<close> are the ones the controller passes; \<open>newId\<close> is the id
  the driver gives the new document. A starting bid that is no number, or a date that
  cannot be cast, makes the create throw.
\<close>

definition Auction_create ::
  "oid \<Rightarrow> string \<Rightarrow> string \<Rightarrow> string \<Rightarrow> string \<Rightarrow> jsnum \<Rightarrow> date_input \<Rightarrow> date_input \<Rightarrow>
   image_ref \<Rightarrow> oid \<Rightarrow> store \<Rightarrow> js_error + (oid list auction \<times> store)" where
  "Auction_create newId title' description' category' condition' startingBid' startTime'
     endTime' image' createdBy' s =
     (let bad = (if startingBid' = NaN then [(''startingBid'', ''Number'', ''NaN'')] else []) @
                (if castDate startTime' = None
                 then [(''startTime'', ''date'', raw startTime')] else []) @
                (if castDate endTime' = None
                 then [(''endTime'', ''date'', raw endTime')] else [])
      in case (bad, castDate startTime', castDate endTime') of
           ([], Some t1, Some t2) \<Rightarrow>
             (let auctionItem' =
                    \<lparr>a_id = newId, title = title', description = description',
                     category = category', condition = condition',
                     startingBid = startingBid', startTime = t1, endTime = t2,
                     currentBid = Fin 0, highestBidder = None, bids = [],
                     commissionCalculated = False, image_doc = image',
                     createdBy = createdBy'\<rparr>
              in Inr (auctionItem', s\<lparr>Auction := Auction s @ [auctionItem']\<rparr>))
         | _ \<Rightarrow> Inl (validationError ''Auction'' bad))"

section \<open>The auction controllers\<close>

text \<open>
  \<open>addNewAuctionItem\<close>. \<open>now1\<close> and \<open>now2\<close> are the two readings of \<open>Date.now()\<close>: the
  first in the test of the starting time, the second in the query for the seller's
  auctions that have not ended. The checks run in the source's order; every failure
  returns through \<open>next\<close> with the store as it was. The \<open>try\<close> block turns whatever the
  upload or the create throws into an \<open>ErrorHandler\<close> with status 500 (\<open>error.message ||
  "Failed to create auction."\<close>); with no upload response, reading its \<open>error\<close> for the log
  line is what throws.
\<close>

definition addNewAuctionItem ::
  "req \<Rightarrow> time \<Rightarrow> time \<Rightarrow> upload_result \<Rightarrow> oid \<Rightarrow> store \<Rightarrow>
   (oid list auction \<times> string) outcome \<times> store" where
  "addNewAuctionItem req now1 now2 cloudinaryResponse newId s =
     (case files req of
        None \<Rightarrow> (Next (ErrorHandler ''Auction item image is required.'' (Some 400)), s)
      | Some fs \<Rightarrow>
        if fs = [] then (Next (ErrorHandler ''Auction item image is required.'' (Some 400)), s)
        else (case map_of fs ''image'' of
          None \<Rightarrow> (Thrown (TypeError ''mimetype''), s)
        | Some image' \<Rightarrow>
          if mimetype image' \<notin> set allowedFormats
          then (Next (ErrorHandler
                  (''Invalid file format: '' @ mimetype image' @
                   ''. Only PNG, JPEG, and WEBP formats are allowed.'') (Some 400)), s)
          else (case (req_title (body req), req_description (body req),
                      req_category (body req), req_condition (body req),
                      req_startingBid (body req), req_startTime (body req),
                      req_endTime (body req)) of
            (Truthy title', Truthy description', Truthy category', Truthy condition',
             Truthy startingBid', Truthy startTime', Truthy endTime') \<Rightarrow>
              if date_lt (newDate startTime') now1
              then (Next (ErrorHandler
                      ''Auction starting time must be greater than the present time.''
                      (Some 400)), s)
              else if date_ge (newDate startTime') (newDate endTime')
              then (Next (ErrorHandler
                      ''Auction starting time must be less than the ending time.''
                      (Some 400)), s)
              else if length (filter (\<lambda>a. createdBy a = user_id req \<and> endTime a > now2)
                                (Auction s)) > 0
              then (Next (ErrorHandler ''You already have one active auction.'' (Some 400)), s)
              else (case cloudinaryResponse of
                UploadThrows m \<Rightarrow>
                  (Next (ErrorHandler (if m = [] then ''Failed to create auction.'' else m)
                     (Some 500)), s)
              | UploadFalsy \<Rightarrow>
                  (Next (ErrorHandler (message (TypeError ''error'')) (Some 500)), s)
              | UploadError \<Rightarrow>
                  (Next (ErrorHandler ''Failed to upload auction image to cloudinary.''
                     (Some 500)), s)
              | Uploaded pid secure_url \<Rightarrow>
                  (case Auction_create newId title' description' category' condition'
                          startingBid' startTime' endTime'
                          \<lparr>public_id = pid, url = secure_url\<rparr> (user_id req) s of
                     Inl e \<Rightarrow>
                       (Next (ErrorHandler
                          (if message e = [] then ''Failed to create auction.'' else message e)
                          (Some 500)), s)
                   | Inr (auctionItem', s') \<Rightarrow>
                       (Json 201
                          (auctionItem',
                           ''Auction item created and will be listed on the auction page at '' @
                           raw startTime'), s')))
          | _ \<Rightarrow> (Next (ErrorHandler ''Please provide all auction details.'' (Some 400)), s))))"

text \<open>\<open>getAllItems\<close>: every auction, the projection \<open>select("-bids")\<close> leaving \<open>bids\<close> out.\<close>

definition getAllItems :: "store \<Rightarrow> (oid list option auction list) outcome" where
  "getAllItems s = Json 200 (map (withBids None) (Auction s))"

text \<open>
  \<open>populate("bids")\<close> replaces the ids by the Bid documents they name; an id that names
  none is dropped.
\<close>

definition populate :: "store \<Rightarrow> oid list \<Rightarrow> bid list" where
  "populate s ids = List.map_filter (Bid_findById s) ids"

text \<open>
  \<open>Array.prototype.sort\<close> with a comparator: a stable sort that puts \<open>a\<close> before \<open>b\<close> when
  \<open>cmp(a, b) \<le> 0\<close>. The comparator of \<open>getAuctionDetails\<close> is \<open>(a, b) => b.amount -
  a.amount\<close>.
\<close>

fun insertBy :: "('a \<Rightarrow> 'a \<Rightarrow> int) \<Rightarrow> 'a \<Rightarrow> 'a list \<Rightarrow> 'a list" where
  "insertBy cmp x [] = [x]"
| "insertBy cmp x (y # ys) = (if cmp x y \<le> 0 then x # y # ys else y # insertBy cmp x ys)"

definition sortBy :: "('a \<Rightarrow> 'a \<Rightarrow> int) \<Rightarrow> 'a list \<Rightarrow> 'a list" where
  "sortBy cmp xs = foldr (insertBy cmp) xs []"

definition byAmountDesc :: "bid \<Rightarrow> bid \<Rightarrow> int" where
  "byAmountDesc a b = amount b - amount a"

text \<open>
  \<open>getAuctionDetails\<close>. The sort is in place, so the auction of the response carries the
  sorted bids too.
\<close>

definition getAuctionDetails :: "id_param \<Rightarrow> store \<Rightarrow> (bid list auction \<times> bid list) outcome" where
  "getAuctionDetails idp s =
     (case idp of
        Malformed \<Rightarrow> Next (ErrorHandler ''Invalid auction ID format.'' (Some 400))
      | Oid i \<Rightarrow>
        (case Auction_findById s i of
           None \<Rightarrow> Next (ErrorHandler ''Auction not found.'' (Some 404))
         | Some auctionItem' \<Rightarrow>
             (let bidders = sortBy byAmountDesc (populate s (bids auctionItem'))
              in Json 200 (withBids bidders auctionItem', bidders))))"

text \<open>
  The settlement reversal of \<open>republishItem\<close> (the \<open>if (auctionItem.highestBidder)\<close>
  block): the lookup of the highest bidder, the two subtractions on the document read,
  and its save. A lookup that finds nobody gives \<open>null\<close>, and the first subtraction
  throws. The subtractions are those of JavaScript numbers. The store's cast to Number
  refuses NaN, so the save of a document whose \<open>moneySpent\<close> or \<open>auctionsWon\<close> has become
  NaN rejects with a validation error and writes nothing.
\<close>

definition reverseSettlement :: "oid list auction \<Rightarrow> store \<Rightarrow> js_error + store" where
  "reverseSettlement auctionItem' s =
     (case highestBidder auctionItem' of
        None \<Rightarrow> Inr s
      | Some w \<Rightarrow>
        (case User_findById s w of
           None \<Rightarrow> Inl (TypeError ''moneySpent'')
         | Some hb \<Rightarrow>
             (let moneySpent' = js_sub (moneySpent hb) (currentBid auctionItem');
                  auctionsWon' = js_sub (auctionsWon hb) (Fin 1);
                  bad = (if moneySpent' = NaN then [(''moneySpent'', ''Number'', ''NaN'')] else []) @
                        (if auctionsWon' = NaN then [(''auctionsWon'', ''Number'', ''NaN'')] else [])
              in if bad \<noteq> [] then Inl (validationError ''User'' bad)
                 else Inr (s\<lparr>User := updateOne (\<lambda>u. u_id u = w)
                             (\<lambda>u. u\<lparr>moneySpent := moneySpent', auctionsWon := auctionsWon'\<rparr>)
                             (User s)\<rparr>))))"

text \<open>
  The \<open>Auction.findByIdAndUpdate\<close> of \<open>republishItem\<close>, returning the updated document
  (\<open>new: true\<close>), or \<open>None\<close> for the \<open>null\<close> of an id that names no auction. The new times are
  written as the store casts them; a time that cannot be cast makes the update throw
  before anything is written.
\<close>

definition resetAuction ::
  "oid \<Rightarrow> date_input \<Rightarrow> date_input \<Rightarrow> store \<Rightarrow> js_error + (oid list auction option \<times> store)" where
  "resetAuction i startTime' endTime' s =
     (case castDate startTime' of
        None \<Rightarrow> Inl (CastError ''startTime'' (raw startTime'))
      | Some t1 \<Rightarrow>
        (case castDate endTime' of
           None \<Rightarrow> Inl (CastError ''endTime'' (raw endTime'))
         | Some t2 \<Rightarrow>
             (let s' = s\<lparr>Auction := updateOne (\<lambda>a. a_id a = i)
                          (\<lambda>a. a\<lparr>startTime := t1, endTime := t2, bids := [],
                                 commissionCalculated := False, currentBid := Fin 0,
                                 highestBidder := None\<rparr>) (Auction s)\<rparr>
              in Inr (Auction_findById s' i, s'))))"

text \<open>
  \<open>republishItem\<close>. \<open>now1\<close> is the reading of \<open>Date.now()\<close> in the test of the stored
  ending time, \<open>now2\<close> the one in the test of the new starting time. The error for
  missing times is built without a status code. The settlement reversal is saved before
  the auction is updated, so an error raised by the update leaves the reversal in the
  store. \<open>Bid.deleteMany\<close> and the update of the requesting user run on different
  collections.
\<close>

definition republishItem ::
  "req \<Rightarrow> time \<Rightarrow> time \<Rightarrow> store \<Rightarrow> (oid list auction \<times> string) outcome \<times> store" where
  "republishItem req now1 now2 s =
     (case params_id req of
        Malformed \<Rightarrow> (Next (ErrorHandler ''Invalid auction ID format.'' (Some 400)), s)
      | Oid i \<Rightarrow>
        (case Auction_findById s i of
           None \<Rightarrow> (Next (ErrorHandler ''Auction not found.'' (Some 404)), s)
         | Some auctionItem' \<Rightarrow>
           if endTime auctionItem' > now1
           then (Next (ErrorHandler ''Auction is already active, cannot republish.''
                   (Some 400)), s)
           else (case (req_startTime (body req), req_endTime (body req)) of
             (Truthy startTime', Truthy endTime') \<Rightarrow>
               if date_lt (newDate startTime') now2
               then (Next (ErrorHandler
                       ''Auction starting time must be greater than the present time.''
                       (Some 400)), s)
               else if date_ge (newDate startTime') (newDate endTime')
               then (Next (ErrorHandler
                       ''Auction starting time must be less than the ending time.''
                       (Some 400)), s)
               else (case reverseSettlement auctionItem' s of
                 Inl e \<Rightarrow> (Thrown e, s)
               | Inr s1 \<Rightarrow>
                 (case resetAuction i startTime' endTime' s1 of
                    Inl e \<Rightarrow> (Thrown e, s1)
                  | Inr (None, s2) \<Rightarrow> (Thrown (TypeError ''_id''), s2)
                  | Inr (Some updated, s2) \<Rightarrow>
                      (Json 200
                         (updated,
                          ''Auction republished and will be active on '' @ raw startTime'),
                       s2\<lparr>Bid := filter (\<lambda>b. auctionItem b \<noteq> a_id updated) (Bid s2),
                          User := updateOne (\<lambda>u. u_id u = user_id req)
                                    (\<lambda>u. u\<lparr>unpaidCommission := Fin 0\<rparr>) (User s2)\<rparr>)))
           | _ \<Rightarrow> (Next (ErrorHandler ''Start time and end time for republish are mandatory.''
                       None), s))))"

section \<open>The auction closer\<close>

text \<open>
  Modelled from the spec: the settlement of the Auction Closer (section 4.4 of the
  specification), whose code is not among the sources. For a due auction (its ending
  time has passed and \<open>commissionCalculated\<close> is false) with a highest bidder, the winner
  gets \<open>moneySpent += currentBid\<close>, \<open>auctionsWon += 1\<close>, \<open>unpaidCommission += fee\<close> with
  \<open>fee = commission(currentBid)\<close>, in the arithmetic of JavaScript numbers; the auction
  is then marked \<open>commissionCalculated\<close>. On any other auction the closer does nothing.
  The commission schedule is a parameter.
\<close>

definition closeAuction :: "(jsnum \<Rightarrow> jsnum) \<Rightarrow> time \<Rightarrow> oid \<Rightarrow> store \<Rightarrow> store" where
  "closeAuction commission now i s =
     (case Auction_findById s i of
        None \<Rightarrow> s
      | Some a \<Rightarrow>
        if endTime a \<le> now \<and> \<not> commissionCalculated a
        then (let s1 = (case highestBidder a of
                          None \<Rightarrow> s
                        | Some w \<Rightarrow>
                            s\<lparr>User := updateOne (\<lambda>u. u_id u = w)
                                 (\<lambda>u. u\<lparr>moneySpent := js_add (moneySpent u) (currentBid a),
                                        auctionsWon := js_add (auctionsWon u) (Fin 1),
                                        unpaidCommission :=
                                          js_add (unpaidCommission u)
                                            (commission (currentBid a))\<rparr>)
                                 (User s)\<rparr>)
              in s1\<lparr>Auction := updateOne (\<lambda>x. a_id x = i)
                                 (\<lambda>x. x\<lparr>commissionCalculated := True\<rparr>) (Auction s1)\<rparr>)
        else s)"

section \<open>Example data\<close>

text \<open>
  A store with a closed auction that has a winner, a closed auction without bids and a
  running auction of another seller, and a request body with a valid schedule.
\<close>

definition ex_auction :: "oid list auction" where
  "ex_auction =
     \<lparr>a_id = 1, title = ''Lamp'', description = ''Brass desk lamp'', category = ''Home'',
      condition = ''Used'', startingBid = Fin 100, startTime = 1000, endTime = 2000,
      currentBid = Fin 200, highestBidder = Some 7, bids = [11, 12],
      commissionCalculated = True,
      image_doc = \<lparr>public_id = ''p1'', url = ''https://img/p1''\<rparr>, createdBy = 3\<rparr>"

definition ex_unsold :: "oid list auction" where
  "ex_unsold =
     \<lparr>a_id = 2, title = ''Chair'', description = ''Oak chair'', category = ''Home'',
      condition = ''Used'', startingBid = Fin 40, startTime = 1000, endTime = 2000,
      currentBid = Fin 0, highestBidder = None, bids = [],
      commissionCalculated = True,
      image_doc = \<lparr>public_id = ''p2'', url = ''https://img/p2''\<rparr>, createdBy = 3\<rparr>"

definition ex_running :: "oid list auction" where
  "ex_running =
     \<lparr>a_id = 4, title = ''Vase'', description = ''Glass vase'', category = ''Home'',
      condition = ''New'', startingBid = Fin 60, startTime = 2500, endTime = 9000,
      currentBid = Fin 90, highestBidder = Some 7, bids = [13],
      commissionCalculated = False,
      image_doc = \<lparr>public_id = ''p4'', url = ''https://img/p4''\<rparr>, createdBy = 9\<rparr>"

definition ex_store :: store where
  "ex_store =
     \<lparr>Auction = [ex_auction, ex_unsold, ex_running],
      User = [\<lparr>u_id = 3, moneySpent = Fin 0, auctionsWon = Fin 0, unpaidCommission = Fin 40\<rparr>,
              \<lparr>u_id = 7, moneySpent = Fin 500, auctionsWon = Fin 2, unpaidCommission = Fin 25\<rparr>],
      Bid = [\<lparr>b_id = 11, auctionItem = 1, bidder = 8, amount = 150\<rparr>,
             \<lparr>b_id = 12, auctionItem = 1, bidder = 7, amount = 200\<rparr>,
             \<lparr>b_id = 13, auctionItem = 4, bidder = 7, amount = 90\<rparr>]\<rparr>"

text \<open>
  A date given in the ISO format: \<open>new Date\<close> and the store's cast read the same instant
  from it. The clock readings of the examples are a few seconds after the epoch, and so
  are the dates.
\<close>

definition iso_instant :: "string \<Rightarrow> time \<Rightarrow> date_input" where
  "iso_instant txt t = \<lparr>raw = txt, newDate = Some t, castDate = Some t\<rparr>"

definition ex_body :: body where
  "ex_body =
     \<lparr>req_title = Truthy ''Clock'', req_description = Truthy ''Wall clock'',
      req_category = Truthy ''Home'', req_condition = Truthy ''New'',
      req_startingBid = Truthy (Fin 50),
      req_startTime = Truthy (iso_instant ''1970-01-01T00:00:05.000Z'' 5000),
      req_endTime = Truthy (iso_instant ''1970-01-01T00:00:06.000Z'' 6000)\<rparr>"

definition ex_republish :: req where
  "ex_republish = \<lparr>files = None, body = ex_body, user_id = 3, params_id = Oid 1\<rparr>"

definition ex_orphaned :: store where
  "ex_orphaned = ex_store\<lparr>User := [\<lparr>u_id = 3, moneySpent = Fin 0, auctionsWon = Fin 0, unpaidCommission = Fin 40\<rparr>]\<rparr>"

definition ex_due :: store where
  "ex_due = ex_store\<lparr>Auction := [ex_auction\<lparr>commissionCalculated := False\<rparr>, ex_unsold, ex_running]\<rparr>"

text \<open>
  The same stores with fractional amounts. The doubles nearest to 1000.55, 250.35, 500.1
  and 200.2 are given by their exact values; \<open>750.1999999999999\<close>, \<open>700.3\<close> and
  \<open>500.09999999999997\<close> are the doubles that JavaScript prints so.
\<close>

definition d1000_55 :: rat where
  "d1000_55 = 4400465436685107 / 4398046511104"

definition d250_35 :: rat where
  "d250_35 = 8808407552439091 / 35184372088832"

definition d750_1999999999999 :: rat where
  "d750_1999999999999 = 6598828985260441 / 8796093022208"

definition d500_1 :: rat where
  "d500_1 = 4398926120406221 / 8796093022208"

definition d200_2 :: rat where
  "d200_2 = 3521955646092083 / 17592186044416"

definition d700_3 :: rat where
  "d700_3 = 3079951971726131 / 4398046511104"

definition d500_09999999999997 :: rat where
  "d500_09999999999997 = 8797852240812441 / 17592186044416"

definition ex_fraction :: store where
  "ex_fraction =
     ex_store\<lparr>Auction := [ex_auction\<lparr>currentBid := Fin d250_35\<rparr>, ex_unsold, ex_running],
              User := [\<lparr>u_id = 3, moneySpent = Fin 0, auctionsWon = Fin 0,
                         unpaidCommission = Fin 40\<rparr>,
                       \<lparr>u_id = 7, moneySpent = Fin d1000_55, auctionsWon = Fin 2,
                          unpaidCommission = Fin 25\<rparr>]\<rparr>"

definition ex_due_fraction :: store where
  "ex_due_fraction =
     ex_store\<lparr>Auction := [ex_auction\<lparr>currentBid := Fin d200_2, commissionCalculated := False\<rparr>,
                          ex_unsold, ex_running],
              User := [\<lparr>u_id = 3, moneySpent = Fin 0, auctionsWon = Fin 0,
                         unpaidCommission = Fin 40\<rparr>,
                       \<lparr>u_id = 7, moneySpent = Fin d500_1, auctionsWon = Fin 2,
                          unpaidCommission = Fin 25\<rparr>]\<rparr>"

text \<open>
  A republish request whose starting time is a string of digits: no date for \<open>new Date\<close>,
  milliseconds for the store's cast.
\<close>

definition ex_republish_digits :: req where
  "ex_republish_digits =
     ex_republish\<lparr>body := ex_body
       \<lparr>req_startTime := Truthy \<lparr>raw = ''1893456005000'', newDate = None,
                                  castDate = Some 1893456005000\<rparr>,
        req_endTime := Truthy (iso_instant ''2030-01-01T00:00:06.000Z'' 1893456006000)\<rparr>\<rparr>"

text \<open>
  A create request with an image and a valid schedule, the same request with its
  starting time at the instant 3000, the auction that request creates, and a store in
  which the seller has an auction that has not started yet.
\<close>

definition ex_create :: req where
  "ex_create =
     \<lparr>files = Some [(''image'', \<lparr>mimetype = ''image/png'', tempFilePath = ''/tmp/upload-1''\<rparr>)],
      body = ex_body, user_id = 3, params_id = Malformed\<rparr>"

definition ex_upcoming :: "oid list auction" where
  "ex_upcoming =
     \<lparr>a_id = 5, title = ''Desk'', description = ''Pine desk'', category = ''Home'',
      condition = ''New'', startingBid = Fin 80, startTime = 8000, endTime = 9000,
      currentBid = Fin 0, highestBidder = None, bids = [],
      commissionCalculated = False,
      image_doc = \<lparr>public_id = ''p5'', url = ''https://img/p5''\<rparr>, createdBy = 3\<rparr>"

definition ex_created :: "oid list auction" where
  "ex_created =
     \<lparr>a_id = 9, title = ''Clock'', description = ''Wall clock'', category = ''Home'',
      condition = ''New'', startingBid = Fin 50, startTime = 3000, endTime = 6000,
      currentBid = Fin 0, highestBidder = None, bids = [],
      commissionCalculated = False,
      image_doc = \<lparr>public_id = ''p9'', url = ''https://img/p9''\<rparr>, createdBy = 3\<rparr>"

definition ex_create_now :: req where
  "ex_create_now =
     ex_create\<lparr>body := ex_body\<lparr>req_startTime :=
                                   Truthy (iso_instant ''1970-01-01T00:00:03.000Z'' 3000)\<rparr>\<rparr>"

definition ex_scheduled :: store where
  "ex_scheduled = ex_store\<lparr>Auction := [ex_auction, ex_upcoming]\<rparr>"

section \<open>Facts about JavaScript numbers\<close>

lemma roundTiesToEven_of_int [simp]: "roundTiesToEven (of_int k) = k"
  by (simp add: roundTiesToEven_def)

lemma roundTiesToEven_bounds: "\<lfloor>x\<rfloor> \<le> roundTiesToEven x \<and> roundTiesToEven x \<le> \<lceil>x\<rceil>"
proof -
  have "x - of_int \<lfloor>x\<rfloor> = 0 \<or> \<lceil>x\<rceil> = \<lfloor>x\<rfloor> + 1"
    by (metis ceiling_altdef eq_iff_diff_eq_0)
  then show ?thesis
    by (auto simp: roundTiesToEven_def Let_def)
qed

lemma roundTiesToEven_abs_le:
  assumes "\<bar>x\<bar> \<le> of_int m"
  shows "\<bar>roundTiesToEven x\<bar> \<le> m"
proof -
  from assms have "- of_int m \<le> x" and "x \<le> of_int m" by linarith+
  then have "- m \<le> \<lfloor>x\<rfloor>" and "\<lceil>x\<rceil> \<le> m"
    by (simp_all add: le_floor_iff ceiling_le_iff)
  with roundTiesToEven_bounds [of x] show ?thesis by linarith
qed

lemma bitlen_eqI:
  assumes "2 ^ n \<le> (i::int)" and "i < 2 ^ Suc n"
  shows "bitlen i = int n + 1"
proof (rule antisym)
  show "bitlen i \<le> int n + 1"
    using assms(2) by (simp add: bitlen_le_iff_power nat_add_distrib)
  show "int n + 1 \<le> bitlen i"
    using assms(1) by (simp add: bitlen_ge_iff_power nat_add_distrib)
qed

lemma round64_at:
  fixes r :: rat
  assumes lo: "2 ^ (52 + s) \<le> \<bar>r\<bar> * 2 ^ subnormal_bits"
    and hi: "\<bar>r\<bar> * 2 ^ subnormal_bits < 2 ^ (53 + s)"
    and s: "53 + s < overflow_bits"
  shows "round64 r =
           Fin (of_int (roundTiesToEven (r * 2 ^ subnormal_bits / 2 ^ s) * 2 ^ s) /
                2 ^ subnormal_bits)"
proof -
  let ?x = "r * 2 ^ subnormal_bits"
  let ?k = "roundTiesToEven (?x / 2 ^ s)"
  have abs: "\<bar>?x\<bar> = \<bar>r\<bar> * 2 ^ subnormal_bits" by (simp add: abs_mult)
  have "(2::int) ^ (52 + s) \<le> \<lfloor>\<bar>?x\<bar>\<rfloor>"
    using lo by (simp add: abs le_floor_iff)
  moreover have "\<lfloor>\<bar>?x\<bar>\<rfloor> < (2::int) ^ Suc (52 + s)"
    using hi by (simp add: abs floor_less_iff)
  ultimately have "bitlen \<lfloor>\<bar>?x\<bar>\<rfloor> = int (52 + s) + 1"
    by (rule bitlen_eqI)
  then have shift: "nat (bitlen \<lfloor>\<bar>?x\<bar>\<rfloor> - 53) = s" by simp
  have "\<bar>?x / 2 ^ s\<bar> = \<bar>?x\<bar> / 2 ^ s" by (simp add: abs_divide)
  also have "\<dots> < 2 ^ (53 + s) / 2 ^ s"
    using hi by (simp add: abs divide_strict_right_mono)
  also have "\<dots> = of_int (2 ^ 53)" by (simp add: power_add)
  finally have "\<bar>?k\<bar> \<le> 2 ^ 53"
    by (intro roundTiesToEven_abs_le) simp
  then have "\<bar>?k * 2 ^ s\<bar> \<le> 2 ^ 53 * 2 ^ s" by (simp add: abs_mult)
  also have "\<dots> = 2 ^ (53 + s)" by (simp add: power_add)
  also have "\<dots> < 2 ^ overflow_bits" using s by (intro power_strict_increasing) simp_all
  finally have "\<not> \<bar>?k * 2 ^ s\<bar> \<ge> 2 ^ overflow_bits" by simp
  then show ?thesis
    unfolding round64_def Let_def shift by (simp only: if_False)
qed

lemma round64_coarse:
  fixes r :: rat
  assumes n: "n \<le> 970" and lo: "2 ^ 52 \<le> \<bar>r\<bar> / 2 ^ n" and hi: "\<bar>r\<bar> / 2 ^ n < 2 ^ 53"
  shows "round64 r = Fin (of_int (roundTiesToEven (r / 2 ^ n) * 2 ^ n))"
proof -
  define U :: rat where "U = 2 ^ subnormal_bits"
  have U: "0 < U" by (simp add: U_def)
  have p: "(2::rat) ^ (subnormal_bits + n) = U * 2 ^ n" by (simp add: U_def power_add)
  have lo': "2 ^ (52 + (subnormal_bits + n)) \<le> \<bar>r\<bar> * 2 ^ subnormal_bits"
  proof -
    from lo have "2 ^ 52 * 2 ^ n \<le> \<bar>r\<bar>" by (simp add: pos_le_divide_eq)
    then have "(2 ^ 52 * 2 ^ n) * U \<le> \<bar>r\<bar> * U" using U by (simp only: mult_le_cancel_right_pos)
    then show ?thesis by (simp add: power_add [of 2 52] p mult_ac flip: U_def)
  qed
  have hi': "\<bar>r\<bar> * 2 ^ subnormal_bits < 2 ^ (53 + (subnormal_bits + n))"
  proof -
    from hi have "\<bar>r\<bar> < 2 ^ 53 * 2 ^ n" by (simp add: pos_divide_less_eq)
    then have "\<bar>r\<bar> * U < (2 ^ 53 * 2 ^ n) * U" using U by (simp only: mult_less_cancel_right_pos)
    then show ?thesis by (simp add: power_add [of 2 53] p mult_ac flip: U_def)
  qed
  have s: "53 + (subnormal_bits + n) < overflow_bits"
    using n by (simp add: subnormal_bits_def overflow_bits_def)
  have q: "r * 2 ^ subnormal_bits / 2 ^ (subnormal_bits + n) = r / 2 ^ n"
    using U by (simp add: p flip: U_def)
  have v: "(of_int (j * 2 ^ (subnormal_bits + n)) :: rat) / 2 ^ subnormal_bits = of_int (j * 2 ^ n)"
    for j :: int
    using U by (simp add: p flip: U_def)
  show ?thesis
    unfolding round64_at [OF lo' hi' s] q v ..
qed

lemma round64_fine:
  fixes r :: rat
  assumes n: "n \<le> 1074" and lo: "2 ^ 52 \<le> \<bar>r\<bar> * 2 ^ n" and hi: "\<bar>r\<bar> * 2 ^ n < 2 ^ 53"
  shows "round64 r = Fin (of_int (roundTiesToEven (r * 2 ^ n)) / 2 ^ n)"
proof -
  define s where "s = subnormal_bits - n"
  define S :: rat where "S = 2 ^ s"
  have S: "0 < S" by (simp add: S_def)
  have p: "(2::rat) ^ subnormal_bits = 2 ^ n * S"
    using n by (simp add: S_def s_def subnormal_bits_def flip: power_add)
  have lo': "2 ^ (52 + s) \<le> \<bar>r\<bar> * 2 ^ subnormal_bits"
  proof -
    from lo have "2 ^ 52 * S \<le> (\<bar>r\<bar> * 2 ^ n) * S" using S by (simp only: mult_le_cancel_right_pos)
    then show ?thesis by (simp add: power_add [of 2 52] p mult_ac flip: S_def)
  qed
  have hi': "\<bar>r\<bar> * 2 ^ subnormal_bits < 2 ^ (53 + s)"
  proof -
    from hi have "(\<bar>r\<bar> * 2 ^ n) * S < 2 ^ 53 * S" using S by (simp only: mult_less_cancel_right_pos)
    then show ?thesis by (simp add: power_add [of 2 53] p mult_ac flip: S_def)
  qed
  have s: "53 + s < overflow_bits"
    by (simp add: s_def subnormal_bits_def overflow_bits_def)
  have q: "r * 2 ^ subnormal_bits / 2 ^ s = r * 2 ^ n"
    using S by (simp add: p flip: S_def)
  have v: "(of_int (j * 2 ^ s) :: rat) / 2 ^ subnormal_bits = of_int j / 2 ^ n" for j :: int
    using S by (simp add: p flip: S_def)
  show ?thesis
    unfolding round64_at [OF lo' hi' s] q v ..
qed

lemma round64_zero [simp]: "round64 0 = Fin 0"
  using roundTiesToEven_of_int [of 0] by (simp add: round64_def)

lemma round64_int:
  assumes "\<bar>n\<bar> \<le> 2 ^ 53"
  shows "round64 (of_int n) = Fin (of_int n)"
proof -
  consider "n = 0" | "\<bar>n\<bar> = 2 ^ 53" | "0 < \<bar>n\<bar>" "\<bar>n\<bar> < 2 ^ 53"
    using assms by linarith
  then show ?thesis
  proof cases
    case 1
    then show ?thesis by simp
  next
    case 2
    then have n: "n = 2 ^ 53 \<or> n = - (2 ^ 53)" by linarith
    then have h: "(of_int n :: rat) / 2 ^ 1 = of_int (n div 2)" by auto
    have "round64 (of_int n) = Fin (of_int (roundTiesToEven (of_int n / 2 ^ 1) * 2 ^ 1))"
      by (rule round64_coarse) (simp_all add: 2 flip: of_int_abs)
    also have "\<dots> = Fin (of_int n)"
      using n by (auto simp only: h roundTiesToEven_of_int) simp_all
    finally show ?thesis .
  next
    case 3
    define b where "b = nat (bitlen \<bar>n\<bar>)"
    have "bitlen \<bar>n\<bar> \<le> 53" using 3 by (simp add: bitlen_le_iff_power)
    moreover have "1 \<le> bitlen \<bar>n\<bar>" using 3 by (simp add: bitlen_ge_iff_power)
    ultimately have b: "1 \<le> b" "b \<le> 53" by (simp_all add: b_def)
    from 3 bitlen_bounds [of "\<bar>n\<bar>"] b have bl: "2 ^ (b - 1) \<le> \<bar>n\<bar>" and bu: "\<bar>n\<bar> < 2 ^ b"
      by (simp_all add: b_def nat_diff_distrib)
    define m where "m = 53 - b"
    have mb: "b + m = 53" "(b - 1) + m = 52" using b by (simp_all add: m_def)
    have lo: "(2::rat) ^ 52 \<le> \<bar>of_int n\<bar> * 2 ^ m"
    proof -
      have "(2::int) ^ 52 = 2 ^ (b - 1) * 2 ^ m" by (simp only: mb flip: power_add)
      also have "\<dots> \<le> \<bar>n\<bar> * 2 ^ m" using bl by (simp only: mult_le_cancel_right_pos zero_less_power zero_less_numeral)
      finally have "(of_int (2 ^ 52) :: rat) \<le> of_int (\<bar>n\<bar> * 2 ^ m)" by (simp only: of_int_le_iff)
      then show ?thesis by simp
    qed
    have hi: "\<bar>of_int n :: rat\<bar> * 2 ^ m < 2 ^ 53"
    proof -
      have "\<bar>n\<bar> * 2 ^ m < 2 ^ b * 2 ^ m" using bu by (simp only: mult_less_cancel_right_pos zero_less_power zero_less_numeral)
      also have "\<dots> = (2::int) ^ 53" by (simp only: mb flip: power_add)
      finally have "(of_int (\<bar>n\<bar> * 2 ^ m) :: rat) < of_int (2 ^ 53)" by (simp only: of_int_less_iff)
      then show ?thesis by simp
    qed
    have "m \<le> 1074" by (simp add: m_def)
    from round64_fine [OF this lo hi]
    have "round64 (of_int n) = Fin (of_int (roundTiesToEven (of_int (n * 2 ^ m))) / 2 ^ m)"
      by simp
    then show ?thesis by (simp only: roundTiesToEven_of_int) simp
  qed
qed

lemma roundTiesToEven_fraction:
  assumes "0 < b"
  shows "roundTiesToEven (of_int a / of_int b) =
           (if 2 * (a mod b) < b then a div b
            else if b < 2 * (a mod b) then a div b + 1
            else if even (a div b) then a div b else a div b + 1)"
proof -
  have f: "\<lfloor>(of_int a :: rat) / of_int b\<rfloor> = a div b"
    by (simp add: floor_divide_of_int_eq)
  have "(of_int a :: rat) = of_int (a div b) * of_int b + of_int (a mod b)"
    by (metis div_mult_mod_eq of_int_add of_int_mult)
  then have r: "(of_int a :: rat) / of_int b - of_int (a div b) = of_int (a mod b) / of_int b"
    using assms by (simp add: field_simps)
  have lt: "(of_int (a mod b) :: rat) / of_int b < 1 / 2 \<longleftrightarrow> 2 * (a mod b) < b"
  proof -
    have "(of_int (a mod b) :: rat) / of_int b < 1 / 2 \<longleftrightarrow>
          (of_int (2 * (a mod b)) :: rat) < of_int b"
      using assms by (simp add: field_simps)
    then show ?thesis by (simp only: of_int_less_iff)
  qed
  have gt: "1 / 2 < (of_int (a mod b) :: rat) / of_int b \<longleftrightarrow> b < 2 * (a mod b)"
  proof -
    have "1 / 2 < (of_int (a mod b) :: rat) / of_int b \<longleftrightarrow>
          (of_int b :: rat) < of_int (2 * (a mod b))"
      using assms by (simp add: field_simps)
    then show ?thesis by (simp only: of_int_less_iff)
  qed
  show ?thesis
    unfolding roundTiesToEven_def Let_def f r lt gt ..
qed

text \<open>Whole numbers up to \<open>2^53\<close> in magnitude are added and subtracted exactly.\<close>

lemma js_add_int:
  assumes "\<bar>a + b\<bar> \<le> 2 ^ 53"
  shows "js_add (Fin (of_int a)) (Fin (of_int b)) = Fin (of_int (a + b))"
  using round64_int [OF assms] by simp

lemma js_sub_int:
  assumes "\<bar>a - b\<bar> \<le> 2 ^ 53"
  shows "js_sub (Fin (of_int a)) (Fin (of_int b)) = Fin (of_int (a - b))"
  using round64_int [OF assms] by (simp add: js_sub_def)

text \<open>The sums and differences of the examples.\<close>

lemma ex_arith:
  "js_sub (Fin 500) (Fin 200) = Fin 300"
  "js_sub (Fin 2) (Fin 1) = Fin 1"
  "js_add (Fin 500) (Fin 200) = Fin 700"
  "js_add (Fin 2) (Fin 1) = Fin 3"
  "js_add (Fin 25) (Fin 10) = Fin 35"
  "js_sub (Fin 700) (Fin 200) = Fin 500"
  "js_sub (Fin 3) (Fin 1) = Fin 2"
  using js_sub_int [of 500 200] js_sub_int [of 2 1] js_add_int [of 500 200] js_add_int [of 2 1]
    js_add_int [of 25 10] js_sub_int [of 700 200] js_sub_int [of 3 1]
  by simp_all

lemma ex_sub_1000_55: "js_sub (Fin d1000_55) (Fin d250_35) = Fin d750_1999999999999"
proof -
  have d: "d1000_55 - d250_35 = 26395315941041765 / 35184372088832"
    by (simp add: d1000_55_def d250_35_def)
  have "round64 (26395315941041765 / 35184372088832) =
          Fin (of_int (roundTiesToEven (26395315941041765 / 35184372088832 * 2 ^ 43)) / 2 ^ 43)"
    by (rule round64_fine) simp_all
  also have "roundTiesToEven (26395315941041765 / 35184372088832 * 2 ^ 43) = 6598828985260441"
    using roundTiesToEven_fraction [of 4 26395315941041765] by simp
  finally show ?thesis
    by (simp add: js_sub_def d d750_1999999999999_def)
qed

lemma ex_add_500_1: "js_add (Fin d500_1) (Fin d200_2) = Fin d700_3"
proof -
  have d: "d500_1 + d200_2 = 12319807886904525 / 17592186044416"
    by (simp add: d500_1_def d200_2_def)
  have "round64 (12319807886904525 / 17592186044416) =
          Fin (of_int (roundTiesToEven (12319807886904525 / 17592186044416 * 2 ^ 43)) / 2 ^ 43)"
    by (rule round64_fine) simp_all
  also have "roundTiesToEven (12319807886904525 / 17592186044416 * 2 ^ 43) = 6159903943452262"
    using roundTiesToEven_fraction [of 2 12319807886904525] by simp
  finally show ?thesis
    by (simp add: d d700_3_def)
qed

lemma ex_sub_700_3: "js_sub (Fin d700_3) (Fin d200_2) = Fin d500_09999999999997"
proof -
  have d: "d700_3 - d200_2 = 8797852240812441 / 17592186044416"
    by (simp add: d700_3_def d200_2_def)
  have "round64 (8797852240812441 / 17592186044416) =
          Fin (of_int (roundTiesToEven (8797852240812441 / 17592186044416 * 2 ^ 44)) / 2 ^ 44)"
    by (rule round64_fine) simp_all
  also have "roundTiesToEven (8797852240812441 / 17592186044416 * 2 ^ 44) = 8797852240812441"
    using roundTiesToEven_of_int [of 8797852240812441] by simp
  finally show ?thesis
    by (simp add: js_sub_def d d500_09999999999997_def)
qed

section \<open>Facts about the collections\<close>

lemma find_updateOne:
  assumes "\<And>d. key (f d) = key d"
  shows "find (\<lambda>d. key d = j) (updateOne (\<lambda>d. key d = i) f xs) =
         (if j = i then map_option f (find (\<lambda>d. key d = j) xs) else find (\<lambda>d. key d = j) xs)"
  using assms by (induction xs) auto

lemma map_updateOne:
  assumes "\<And>d. g (f d) = g d"
  shows "map g (updateOne p f xs) = map g xs"
  using assms by (induction xs) auto

lemma insertBy_mset: "mset (insertBy cmp x xs) = add_mset x (mset xs)"
  by (induction xs) auto

lemma sortBy_mset: "mset (sortBy cmp xs) = mset xs"
  by (induction xs) (auto simp: sortBy_def insertBy_mset)

lemma insertBy_set: "set (insertBy cmp x xs) = insert x (set xs)"
  by (induction xs) auto

lemma insertBy_desc:
  "sorted_wrt (\<lambda>a b. amount a \<ge> amount b) xs \<Longrightarrow>
   sorted_wrt (\<lambda>a b. amount a \<ge> amount b) (insertBy byAmountDesc x xs)"
  by (induction xs) (auto simp: byAmountDesc_def insertBy_set)

lemma sortBy_desc: "sorted_wrt (\<lambda>a b. amount a \<ge> amount b) (sortBy byAmountDesc xs)"
  by (induction xs) (auto simp: sortBy_def insertBy_desc)

lemma find_key: "find (\<lambda>d. key d = i) xs = Some d \<Longrightarrow> key d = i"
  by (auto simp: find_Some_iff)

section \<open>Republishing\<close>

text \<open>
  What a successful republish has gone through: the stored ending time was not after
  the clock reading, both times were given and passed the schedule tests, the reversal
  and the update went through, and the final store is the one after \<open>Bid.deleteMany\<close>
  and the update of the requesting user.
\<close>

lemma republish_success:
  assumes "params_id req = Oid i" and "Auction_findById s i = Some a"
    and "republishItem req now1 now2 s = (Json c p, s')"
  shows "\<exists>st et s1 s2 a'.
           endTime a \<le> now1 \<and>
           req_startTime (body req) = Truthy st \<and> req_endTime (body req) = Truthy et \<and>
           \<not> date_lt (newDate st) now2 \<and> \<not> date_ge (newDate st) (newDate et) \<and>
           reverseSettlement a s = Inr s1 \<and>
           resetAuction i st et s1 = Inr (Some a', s2) \<and>
           c = 200 \<and> fst p = a' \<and>
           s' = s2\<lparr>Bid := filter (\<lambda>b. auctionItem b \<noteq> a_id a') (Bid s2),
                    User := updateOne (\<lambda>u. u_id u = user_id req)
                              (\<lambda>u. u\<lparr>unpaidCommission := Fin 0\<rparr>) (User s2)\<rparr>"
  using assms
  by (auto simp: republishItem_def split: if_splits field.splits sum.splits option.splits prod.splits)

lemma reverseSettlement_Inr:
  assumes "reverseSettlement a s = Inr s1"
  shows "Auction s1 = Auction s \<and> Bid s1 = Bid s \<and>
         (case highestBidder a of
            None \<Rightarrow> User s1 = User s
          | Some w \<Rightarrow> (\<exists>hb. User_findById s w = Some hb \<and>
               User s1 = updateOne (\<lambda>u. u_id u = w)
                 (\<lambda>u. u\<lparr>moneySpent := js_sub (moneySpent hb) (currentBid a),
                        auctionsWon := js_sub (auctionsWon hb) (Fin 1)\<rparr>) (User s)))"
  using assms
  by (auto simp: reverseSettlement_def Let_def split: option.splits if_splits)

lemma resetAuction_Inr:
  assumes "resetAuction i st et s1 = Inr (Some a', s2)"
  shows "\<exists>t1 t2. castDate st = Some t1 \<and> castDate et = Some t2 \<and>
           User s2 = User s1 \<and> Bid s2 = Bid s1 \<and>
           Auction_findById s2 i = Some a' \<and> a_id a' = i \<and>
           startTime a' = t1 \<and> endTime a' = t2 \<and> bids a' = [] \<and>
           \<not> commissionCalculated a' \<and> currentBid a' = Fin 0 \<and> highestBidder a' = None"
proof -
  from assms obtain t1 t2 where t: "castDate st = Some t1" "castDate et = Some t2"
    by (auto simp: resetAuction_def split: option.splits)
  let ?f = "\<lambda>a::oid list auction. a\<lparr>startTime := t1, endTime := t2, bids := [],
              commissionCalculated := False, currentBid := Fin 0, highestBidder := None\<rparr>"
  from assms t have s2: "s2 = s1\<lparr>Auction := updateOne (\<lambda>a. a_id a = i) ?f (Auction s1)\<rparr>"
    and found: "Auction_findById s2 i = Some a'"
    by (auto simp: resetAuction_def Let_def)
  have "find (\<lambda>a. a_id a = i) (updateOne (\<lambda>a. a_id a = i) ?f (Auction s1)) =
        map_option ?f (find (\<lambda>a. a_id a = i) (Auction s1))"
    by (subst find_updateOne) simp_all
  with found s2 obtain a0 where "a' = ?f a0" and "a_id a0 = i"
    by (auto simp: Auction_findById_def dest: find_key)
  with t s2 found show ?thesis by simp
qed

text \<open>The example republish request on the example store.\<close>

lemmas ex_defs = ex_auction_def ex_unsold_def ex_running_def ex_store_def ex_body_def
  ex_republish_def iso_instant_def

lemmas republish_defs = republishItem_def reverseSettlement_def resetAuction_def
  Auction_findById_def User_findById_def date_lt_def date_ge_def ErrorHandler_def TypeError_def
  CastError_def Let_def ex_arith

lemma ex_params: "params_id ex_republish = Oid 1"
  by (simp add: ex_defs)

lemma ex_found: "Auction_findById ex_store 1 = Some ex_auction"
  by (simp add: ex_defs Auction_findById_def)

lemma ex_found_unsold: "Auction_findById ex_store 2 = Some ex_unsold"
  by (simp add: ex_defs Auction_findById_def)

lemma ex_republish_ok:
  "\<exists>p. republishItem ex_republish 3000 3000 ex_store =
          (Json 200 p, snd (republishItem ex_republish 3000 3000 ex_store))"
  by (simp add: ex_defs republish_defs)

lemma ex_republish_unsold_ok:
  "\<exists>p. republishItem (ex_republish\<lparr>params_id := Oid 2\<rparr>) 3000 3000 ex_store =
          (Json 200 p, snd (republishItem (ex_republish\<lparr>params_id := Oid 2\<rparr>) 3000 3000 ex_store))"
  by (simp add: ex_defs republish_defs)

text \<open>
  Claim C3. A republish request on an existing auction whose ending time is still in the
  future fails with the error ``Auction is already active, cannot republish.'' (status
  400) and leaves every record as it was; a republish that succeeds has found the ending
  time at or before the clock reading.
\<close>

theorem republish_still_active:
  assumes "params_id req = Oid i" and "Auction_findById s i = Some a"
  shows "(endTime a > now1 \<longrightarrow>
            republishItem req now1 now2 s =
              (Next (ErrorHandler ''Auction is already active, cannot republish.'' (Some 400)), s))
       \<and> (\<forall>c p s'. republishItem req now1 now2 s = (Json c p, s') \<longrightarrow> endTime a \<le> now1)"
proof
  show "endTime a > now1 \<longrightarrow>
          republishItem req now1 now2 s =
            (Next (ErrorHandler ''Auction is already active, cannot republish.'' (Some 400)), s)"
    using assms by (simp add: republishItem_def)
next
  show "\<forall>c p s'. republishItem req now1 now2 s = (Json c p, s') \<longrightarrow> endTime a \<le> now1"
    using republish_success [OF assms] by blast
qed

theorem republish_still_active_witness:
  "republishItem ex_republish 1500 1500 ex_store =
     (Next (ErrorHandler ''Auction is already active, cannot republish.'' (Some 400)), ex_store)
   \<and> (\<exists>c p s'. republishItem ex_republish 3000 3000 ex_store = (Json c p, s'))
   \<and> endTime ex_auction \<le> 3000"
proof -
  from ex_republish_ok
  have r: "\<exists>c p s'. republishItem ex_republish 3000 3000 ex_store = (Json c p, s')"
    by blast
  have a: "republishItem ex_republish 1500 1500 ex_store =
     (Next (ErrorHandler ''Auction is already active, cannot republish.'' (Some 400)), ex_store)"
    using republish_still_active [OF ex_params ex_found, of 1500 1500]
    by (simp add: ex_auction_def)
  have b: "endTime ex_auction \<le> 3000"
    using republish_still_active [OF ex_params ex_found, of 3000 3000] r by blast
  from a r b show ?thesis by blast
qed

text \<open>
  What a successful republish does to the highest bidder's document: the two
  subtractions of the reversal, and nothing else on the two settlement figures.
\<close>

lemma republish_winner:
  assumes "params_id req = Oid i" and "Auction_findById s i = Some a"
    and "republishItem req now1 now2 s = (Json c p, s')"
    and w: "highestBidder a = Some w"
  shows "\<exists>u u'. User_findById s w = Some u \<and> User_findById s' w = Some u' \<and>
                 moneySpent u' = js_sub (moneySpent u) (currentBid a) \<and>
                 auctionsWon u' = js_sub (auctionsWon u) (Fin 1)"
proof -
  from republish_success [OF assms(1-3)] obtain st et s1 s2 a' where
    rev: "reverseSettlement a s = Inr s1" and
    reset: "resetAuction i st et s1 = Inr (Some a', s2)" and
    s': "s' = s2\<lparr>Bid := filter (\<lambda>b. auctionItem b \<noteq> a_id a') (Bid s2),
                  User := updateOne (\<lambda>u. u_id u = user_id req)
                            (\<lambda>u. u\<lparr>unpaidCommission := Fin 0\<rparr>) (User s2)\<rparr>"
    by blast
  from resetAuction_Inr [OF reset] have u2: "User s2 = User s1" by blast
  from reverseSettlement_Inr [OF rev] w obtain hb where hb: "User_findById s w = Some hb" and
    u1: "User s1 = updateOne (\<lambda>u. u_id u = w)
               (\<lambda>u. u\<lparr>moneySpent := js_sub (moneySpent hb) (currentBid a),
                      auctionsWon := js_sub (auctionsWon hb) (Fin 1)\<rparr>) (User s)"
    by auto
  have 1: "User_findById s1 w = Some (hb\<lparr>moneySpent := js_sub (moneySpent hb) (currentBid a),
                                          auctionsWon := js_sub (auctionsWon hb) (Fin 1)\<rparr>)"
    using hb by (simp add: u1 User_findById_def find_updateOne)
  have 2: "User_findById s' w =
             (if w = user_id req
              then map_option (\<lambda>u. u\<lparr>unpaidCommission := Fin 0\<rparr>) (User_findById s1 w)
              else User_findById s1 w)"
    by (simp add: s' u2 User_findById_def find_updateOne)
  from 1 2 hb show ?thesis by auto
qed

text \<open>
  Claim C4 as stated fails: the subtraction is that of JavaScript numbers, and its
  result is the double nearest to the difference. With \<open>moneySpent = 1000.55\<close> and
  \<open>currentBid = 250.35\<close> the republish succeeds and leaves \<open>moneySpent =
  750.1999999999999\<close>, which is not the difference of the two doubles.
\<close>

theorem republish_reversal_counterexample:
  "Auction_findById ex_fraction 1 = Some (ex_auction\<lparr>currentBid := Fin d250_35\<rparr>)
   \<and> highestBidder (ex_auction\<lparr>currentBid := Fin d250_35\<rparr>) = Some 7
   \<and> User_findById ex_fraction 7 =
       Some \<lparr>u_id = 7, moneySpent = Fin d1000_55, auctionsWon = Fin 2, unpaidCommission = Fin 25\<rparr>
   \<and> fst (republishItem ex_republish 3000 3000 ex_fraction) =
       Json 200 (ex_auction\<lparr>startTime := 5000, endTime := 6000, bids := [],
                   commissionCalculated := False, currentBid := Fin 0, highestBidder := None\<rparr>,
                 ''Auction republished and will be active on 1970-01-01T00:00:05.000Z'')
   \<and> User_findById (snd (republishItem ex_republish 3000 3000 ex_fraction)) 7 =
       Some \<lparr>u_id = 7, moneySpent = Fin d750_1999999999999, auctionsWon = Fin 1,
              unpaidCommission = Fin 25\<rparr>
   \<and> d750_1999999999999 \<noteq> d1000_55 - d250_35"
proof -
  have "d750_1999999999999 \<noteq> d1000_55 - d250_35"
    by (simp add: d750_1999999999999_def d1000_55_def d250_35_def)
  then show ?thesis
    by (simp add: ex_fraction_def ex_defs republish_defs ex_sub_1000_55)
qed

text \<open>
  Claim C4, amended. After a successful republish of an auction with a highest bidder,
  that bidder's \<open>moneySpent\<close> is the JavaScript difference \<open>moneySpent - currentBid\<close> and
  their \<open>auctionsWon\<close> the JavaScript difference \<open>auctionsWon - 1\<close>, each the double
  nearest to the exact difference: lower by exactly \<open>currentBid\<close>, and by exactly 1,
  whenever the exact difference is itself a double, as it is for whole numbers up to
  \<open>2^53\<close> (lemma \<open>round64_int\<close>). Without a highest bidder, the users' \<open>moneySpent\<close> and
  \<open>auctionsWon\<close> are all as before.
\<close>

theorem republish_reverses_settlement:
  assumes "params_id req = Oid i" and "Auction_findById s i = Some a"
    and "republishItem req now1 now2 s = (Json c p, s')"
  shows "(\<forall>w. highestBidder a = Some w \<longrightarrow>
            (\<exists>u u'. User_findById s w = Some u \<and> User_findById s' w = Some u' \<and>
                    moneySpent u' = js_sub (moneySpent u) (currentBid a) \<and>
                    auctionsWon u' = js_sub (auctionsWon u) (Fin 1) \<and>
                    (\<forall>x y. moneySpent u = Fin x \<and> currentBid a = Fin y \<and>
                           round64 (x - y) = Fin (x - y) \<longrightarrow>
                           moneySpent u' = Fin (x - y)) \<and>
                    (\<forall>n. auctionsWon u = Fin n \<and> round64 (n - 1) = Fin (n - 1) \<longrightarrow>
                         auctionsWon u' = Fin (n - 1))))
       \<and> (highestBidder a = None \<longrightarrow>
            map (\<lambda>u. (u_id u, moneySpent u, auctionsWon u)) (User s') =
            map (\<lambda>u. (u_id u, moneySpent u, auctionsWon u)) (User s))"
proof (intro conjI allI impI)
  fix w assume "highestBidder a = Some w"
  with assms obtain u u' where
    u: "User_findById s w = Some u" "User_findById s' w = Some u'"
       "moneySpent u' = js_sub (moneySpent u) (currentBid a)"
       "auctionsWon u' = js_sub (auctionsWon u) (Fin 1)"
    using republish_winner by blast
  have "moneySpent u' = Fin (x - y)"
    if "moneySpent u = Fin x \<and> currentBid a = Fin y \<and> round64 (x - y) = Fin (x - y)" for x y
    using that u(3) by (simp add: js_sub_def)
  moreover have "auctionsWon u' = Fin (n - 1)"
    if "auctionsWon u = Fin n \<and> round64 (n - 1) = Fin (n - 1)" for n
    using that u(4) by (simp add: js_sub_def)
  ultimately show "\<exists>u u'. User_findById s w = Some u \<and> User_findById s' w = Some u' \<and>
                    moneySpent u' = js_sub (moneySpent u) (currentBid a) \<and>
                    auctionsWon u' = js_sub (auctionsWon u) (Fin 1) \<and>
                    (\<forall>x y. moneySpent u = Fin x \<and> currentBid a = Fin y \<and>
                           round64 (x - y) = Fin (x - y) \<longrightarrow>
                           moneySpent u' = Fin (x - y)) \<and>
                    (\<forall>n. auctionsWon u = Fin n \<and> round64 (n - 1) = Fin (n - 1) \<longrightarrow>
                         auctionsWon u' = Fin (n - 1))"
    using u by blast
next
  assume nobody: "highestBidder a = None"
  from republish_success [OF assms] obtain st et s1 s2 a' where
    rev: "reverseSettlement a s = Inr s1" and
    reset: "resetAuction i st et s1 = Inr (Some a', s2)" and
    s': "s' = s2\<lparr>Bid := filter (\<lambda>b. auctionItem b \<noteq> a_id a') (Bid s2),
                  User := updateOne (\<lambda>u. u_id u = user_id req)
                            (\<lambda>u. u\<lparr>unpaidCommission := Fin 0\<rparr>) (User s2)\<rparr>"
    by blast
  from resetAuction_Inr [OF reset] have u2: "User s2 = User s1" by blast
  from reverseSettlement_Inr [OF rev] nobody have u1: "User s1 = User s" by simp
  show "map (\<lambda>u. (u_id u, moneySpent u, auctionsWon u)) (User s') =
        map (\<lambda>u. (u_id u, moneySpent u, auctionsWon u)) (User s)"
    by (simp add: s' u2 u1 map_updateOne)
qed

theorem republish_reverses_settlement_witness:
  "(\<exists>u'. User_findById (snd (republishItem ex_republish 3000 3000 ex_store)) 7 = Some u' \<and>
          moneySpent u' = Fin 300 \<and> auctionsWon u' = Fin 1)
   \<and> map (\<lambda>u. (u_id u, moneySpent u, auctionsWon u))
         (User (snd (republishItem (ex_republish\<lparr>params_id := Oid 2\<rparr>) 3000 3000 ex_store))) =
       [(3, Fin 0, Fin 0), (7, Fin 500, Fin 2)]"
proof -
  from ex_republish_ok obtain p where
    r: "republishItem ex_republish 3000 3000 ex_store =
          (Json 200 p, snd (republishItem ex_republish 3000 3000 ex_store))" ..
  have w: "highestBidder ex_auction = Some 7" by (simp add: ex_defs)
  have u: "User_findById ex_store 7 =
             Some \<lparr>u_id = 7, moneySpent = Fin 500, auctionsWon = Fin 2, unpaidCommission = Fin 25\<rparr>"
    by (simp add: ex_defs User_findById_def)
  have c: "currentBid ex_auction = Fin 200" by (simp add: ex_defs)
  have e: "round64 (500 - 200) = Fin (500 - 200)" "round64 (2 - 1) = Fin (2 - 1)"
    using round64_int [of 300] round64_int [of 1] by simp_all
  from republish_reverses_settlement [OF ex_params ex_found r] w u c e
  have a: "\<exists>u'. User_findById (snd (republishItem ex_republish 3000 3000 ex_store)) 7 = Some u' \<and>
          moneySpent u' = Fin 300 \<and> auctionsWon u' = Fin 1"
    by fastforce
  from ex_republish_unsold_ok obtain q where
    r2: "republishItem (ex_republish\<lparr>params_id := Oid 2\<rparr>) 3000 3000 ex_store =
          (Json 200 q, snd (republishItem (ex_republish\<lparr>params_id := Oid 2\<rparr>) 3000 3000 ex_store))" ..
  have n: "highestBidder ex_unsold = None" by (simp add: ex_defs)
  have p2: "params_id (ex_republish\<lparr>params_id := Oid 2\<rparr>) = Oid 2" by simp
  from republish_reverses_settlement [OF p2 ex_found_unsold r2] n
  have b: "map (\<lambda>u. (u_id u, moneySpent u, auctionsWon u))
         (User (snd (republishItem (ex_republish\<lparr>params_id := Oid 2\<rparr>) 3000 3000 ex_store))) =
       [(3, Fin 0, Fin 0), (7, Fin 500, Fin 2)]"
    by (simp add: ex_store_def)
  from a b show ?thesis ..
qed

text \<open>
  Claim C5. After a successful republish the auction has the starting and ending time of
  the request, as the store casts them, no bids, \<open>commissionCalculated = false\<close>,
  \<open>currentBid = 0\<close> and no highest bidder, and the Bid collection holds no bid of that
  auction.
\<close>

theorem republish_resets_auction:
  assumes "params_id req = Oid i" and "Auction_findById s i = Some a"
    and "republishItem req now1 now2 s = (Json c p, s')"
  shows "\<exists>st et a'. req_startTime (body req) = Truthy st \<and> req_endTime (body req) = Truthy et \<and>
           Auction_findById s' i = Some a' \<and> fst p = a' \<and>
           castDate st = Some (startTime a') \<and> castDate et = Some (endTime a') \<and>
           bids a' = [] \<and> commissionCalculated a' = False \<and> currentBid a' = Fin 0 \<and>
           highestBidder a' = None \<and>
           filter (\<lambda>b. auctionItem b = i) (Bid s') = []"
proof -
  from republish_success [OF assms] obtain st et s1 s2 a' where
    times: "req_startTime (body req) = Truthy st" "req_endTime (body req) = Truthy et" and
    reset: "resetAuction i st et s1 = Inr (Some a', s2)" and
    p: "fst p = a'" and
    s': "s' = s2\<lparr>Bid := filter (\<lambda>b. auctionItem b \<noteq> a_id a') (Bid s2),
                  User := updateOne (\<lambda>u. u_id u = user_id req)
                            (\<lambda>u. u\<lparr>unpaidCommission := Fin 0\<rparr>) (User s2)\<rparr>"
    by blast
  from resetAuction_Inr [OF reset] obtain t1 t2 where
    r: "castDate st = Some t1" "castDate et = Some t2" "Auction_findById s2 i = Some a'"
       "a_id a' = i" "startTime a' = t1" "endTime a' = t2" "bids a' = []"
       "\<not> commissionCalculated a'" "currentBid a' = Fin 0" "highestBidder a' = None"
    by blast
  have found: "Auction_findById s' i = Some a'"
    using r(3) by (simp add: s' Auction_findById_def)
  have gone: "filter (\<lambda>b. auctionItem b = i) (Bid s') = []"
    by (simp add: s' r(4) filter_empty_conv)
  from times p r found gone show ?thesis by simp
qed

theorem republish_resets_auction_witness:
  "(\<exists>a'. Auction_findById (snd (republishItem ex_republish 3000 3000 ex_store)) 1 = Some a' \<and>
         startTime a' = 5000 \<and> endTime a' = 6000 \<and> bids a' = [] \<and>
         commissionCalculated a' = False \<and> currentBid a' = Fin 0 \<and> highestBidder a' = None)
   \<and> filter (\<lambda>b. auctionItem b = 1)
        (Bid (snd (republishItem ex_republish 3000 3000 ex_store))) = []
   \<and> (\<exists>a'. Auction_findById (snd (republishItem ex_republish_digits 3000 3000 ex_store)) 1 =
             Some a' \<and>
           startTime a' = 1893456005000 \<and> endTime a' = 1893456006000)"
proof -
  from ex_republish_ok obtain p where
    r: "republishItem ex_republish 3000 3000 ex_store =
          (Json 200 p, snd (republishItem ex_republish 3000 3000 ex_store))" ..
  have b: "req_startTime (body ex_republish) =
             Truthy (iso_instant ''1970-01-01T00:00:05.000Z'' 5000)"
          "req_endTime (body ex_republish) =
             Truthy (iso_instant ''1970-01-01T00:00:06.000Z'' 6000)"
    by (simp_all add: ex_republish_def ex_body_def)
  from republish_resets_auction [OF ex_params ex_found r] b
  have 1: "\<exists>a'. Auction_findById (snd (republishItem ex_republish 3000 3000 ex_store)) 1 = Some a' \<and>
         startTime a' = 5000 \<and> endTime a' = 6000 \<and> bids a' = [] \<and>
         commissionCalculated a' = False \<and> currentBid a' = Fin 0 \<and> highestBidder a' = None"
    and 2: "filter (\<lambda>b. auctionItem b = 1)
        (Bid (snd (republishItem ex_republish 3000 3000 ex_store))) = []"
    by (auto simp: iso_instant_def)
  have "\<exists>p. republishItem ex_republish_digits 3000 3000 ex_store =
          (Json 200 p, snd (republishItem ex_republish_digits 3000 3000 ex_store))"
    by (simp add: ex_republish_digits_def ex_defs republish_defs)
  then obtain q where
    rd: "republishItem ex_republish_digits 3000 3000 ex_store =
          (Json 200 q, snd (republishItem ex_republish_digits 3000 3000 ex_store))" ..
  have pd: "params_id ex_republish_digits = Oid 1"
    by (simp add: ex_republish_digits_def ex_defs)
  have bd: "req_startTime (body ex_republish_digits) =
              Truthy \<lparr>raw = ''1893456005000'', newDate = None, castDate = Some 1893456005000\<rparr>"
           "req_endTime (body ex_republish_digits) =
              Truthy (iso_instant ''2030-01-01T00:00:06.000Z'' 1893456006000)"
    by (simp_all add: ex_republish_digits_def)
  from republish_resets_auction [OF pd ex_found rd] bd
  have 3: "\<exists>a'. Auction_findById (snd (republishItem ex_republish_digits 3000 3000 ex_store)) 1 =
             Some a' \<and>
           startTime a' = 1893456005000 \<and> endTime a' = 1893456006000"
    by (auto simp: iso_instant_def)
  from 1 2 3 show ?thesis by blast
qed

text \<open>
  Claim C6. After a successful republish the requesting user's \<open>unpaidCommission\<close> is
  zero, whatever it was and whether or not the requester was the highest bidder.
\<close>

theorem republish_clears_unpaidCommission:
  assumes "params_id req = Oid i" and "Auction_findById s i = Some a"
    and "republishItem req now1 now2 s = (Json c p, s')"
    and "User_findById s (user_id req) = Some u"
  shows "\<exists>u'. User_findById s' (user_id req) = Some u' \<and> unpaidCommission u' = Fin 0"
proof -
  from republish_success [OF assms(1-3)] obtain st et s1 s2 a' where
    rev: "reverseSettlement a s = Inr s1" and
    reset: "resetAuction i st et s1 = Inr (Some a', s2)" and
    s': "s' = s2\<lparr>Bid := filter (\<lambda>b. auctionItem b \<noteq> a_id a') (Bid s2),
                  User := updateOne (\<lambda>u. u_id u = user_id req)
                            (\<lambda>u. u\<lparr>unpaidCommission := Fin 0\<rparr>) (User s2)\<rparr>"
    by blast
  from resetAuction_Inr [OF reset] have u2: "User s2 = User s1" by blast
  have "\<exists>u1. User_findById s1 (user_id req) = Some u1"
    using reverseSettlement_Inr [OF rev] assms(4)
    by (cases "highestBidder a") (auto simp: User_findById_def find_updateOne)
  then obtain u1 where "User_findById s1 (user_id req) = Some u1" ..
  then have "User_findById s' (user_id req) = Some (u1\<lparr>unpaidCommission := Fin 0\<rparr>)"
    by (simp add: s' u2 User_findById_def find_updateOne)
  then show ?thesis by simp
qed

theorem republish_clears_unpaidCommission_witness:
  "User_findById ex_store 3 =
     Some \<lparr>u_id = 3, moneySpent = Fin 0, auctionsWon = Fin 0, unpaidCommission = Fin 40\<rparr> \<and>
   (\<exists>u'. User_findById (snd (republishItem ex_republish 3000 3000 ex_store)) 3 = Some u' \<and>
         unpaidCommission u' = Fin 0) \<and>
   User_findById ex_store 7 =
     Some \<lparr>u_id = 7, moneySpent = Fin 500, auctionsWon = Fin 2, unpaidCommission = Fin 25\<rparr> \<and>
   (\<exists>u'. User_findById (snd (republishItem (ex_republish\<lparr>user_id := 7\<rparr>) 3000 3000 ex_store)) 7
            = Some u' \<and> unpaidCommission u' = Fin 0)"
proof -
  from ex_republish_ok obtain p where
    r: "republishItem ex_republish 3000 3000 ex_store =
          (Json 200 p, snd (republishItem ex_republish 3000 3000 ex_store))" ..
  have u: "User_findById ex_store (user_id ex_republish) =
             Some \<lparr>u_id = 3, moneySpent = Fin 0, auctionsWon = Fin 0, unpaidCommission = Fin 40\<rparr>"
    by (simp add: ex_defs User_findById_def)
  have id: "user_id ex_republish = 3" by (simp add: ex_defs)
  have r7: "\<exists>p. republishItem (ex_republish\<lparr>user_id := 7\<rparr>) 3000 3000 ex_store =
          (Json 200 p, snd (republishItem (ex_republish\<lparr>user_id := 7\<rparr>) 3000 3000 ex_store))"
    by (simp add: ex_defs republish_defs)
  then obtain q where
    r7: "republishItem (ex_republish\<lparr>user_id := 7\<rparr>) 3000 3000 ex_store =
          (Json 200 q, snd (republishItem (ex_republish\<lparr>user_id := 7\<rparr>) 3000 3000 ex_store))" ..
  have p7: "params_id (ex_republish\<lparr>user_id := 7\<rparr>) = Oid 1" by (simp add: ex_defs)
  have u7: "User_findById ex_store (user_id (ex_republish\<lparr>user_id := 7\<rparr>)) =
             Some \<lparr>u_id = 7, moneySpent = Fin 500, auctionsWon = Fin 2, unpaidCommission = Fin 25\<rparr>"
    by (simp add: ex_defs User_findById_def)
  from republish_clears_unpaidCommission [OF ex_params ex_found r u]
       republish_clears_unpaidCommission [OF p7 ex_found r7 u7] u u7
  show ?thesis by (simp add: id)
qed

text \<open>
  Claim C7. A republish request on an existing closed auction that lacks the starting or
  the ending time fails with an \<open>ErrorHandler\<close> built without a status code, and the
  error middleware answers it with status 500, not with a client-error status.
\<close>

theorem republish_missing_times_status:
  assumes "params_id req = Oid i" and "Auction_findById s i = Some a" and "endTime a \<le> now1"
    and "req_startTime (body req) = Falsy \<or> req_endTime (body req) = Falsy"
  shows "republishItem req now1 now2 s =
           (Next (ErrorHandler ''Start time and end time for republish are mandatory.'' None), s)
       \<and> status (errorMiddleware
             (ErrorHandler ''Start time and end time for republish are mandatory.'' None)) = Some 500"
proof
  show "republishItem req now1 now2 s =
           (Next (ErrorHandler ''Start time and end time for republish are mandatory.'' None), s)"
    using assms by (auto simp: republishItem_def split: field.splits)
next
  show "status (errorMiddleware
             (ErrorHandler ''Start time and end time for republish are mandatory.'' None)) = Some 500"
    by (simp add: errorMiddleware_def ErrorHandler_def)
qed

theorem republish_missing_times_status_witness:
  "republishItem (ex_republish\<lparr>body := ex_body\<lparr>req_endTime := Falsy\<rparr>\<rparr>) 3000 3000 ex_store =
     (Next (ErrorHandler ''Start time and end time for republish are mandatory.'' None), ex_store)
   \<and> status (errorMiddleware
         (ErrorHandler ''Start time and end time for republish are mandatory.'' None)) = Some 500"
proof -
  have p: "params_id (ex_republish\<lparr>body := ex_body\<lparr>req_endTime := Falsy\<rparr>\<rparr>) = Oid 1"
    by (simp add: ex_defs)
  have e: "endTime ex_auction \<le> 3000" by (simp add: ex_defs)
  have m: "req_startTime (body (ex_republish\<lparr>body := ex_body\<lparr>req_endTime := Falsy\<rparr>\<rparr>)) = Falsy \<or>
           req_endTime (body (ex_republish\<lparr>body := ex_body\<lparr>req_endTime := Falsy\<rparr>\<rparr>)) = Falsy"
    by simp
  from republish_missing_times_status [OF p ex_found e m] show ?thesis .
qed

text \<open>
  Claim C10. Republishing a closed auction whose highest bidder names no User document
  reads \<open>moneySpent\<close> of the \<open>null\<close> the lookup gave: the controller throws, and the store
  is as it was, the auction not reset.
\<close>

theorem republish_missing_winner_aborts:
  assumes "params_id req = Oid i" and "Auction_findById s i = Some a" and "endTime a \<le> now1"
    and "req_startTime (body req) = Truthy st" and "req_endTime (body req) = Truthy et"
    and "\<not> date_lt (newDate st) now2" and "\<not> date_ge (newDate st) (newDate et)"
    and "highestBidder a = Some w" and "User_findById s w = None"
  shows "republishItem req now1 now2 s = (Thrown (TypeError ''moneySpent''), s)"
  using assms by (simp add: republishItem_def reverseSettlement_def)

theorem republish_missing_winner_aborts_witness:
  "republishItem ex_republish 3000 3000 ex_orphaned = (Thrown (TypeError ''moneySpent''), ex_orphaned)
   \<and> Auction_findById ex_orphaned 1 = Some ex_auction
   \<and> highestBidder ex_auction = Some 7 \<and> User_findById ex_orphaned 7 = None"
proof -
  have f: "Auction_findById ex_orphaned 1 = Some ex_auction"
    by (simp add: ex_orphaned_def ex_defs Auction_findById_def)
  have e: "endTime ex_auction \<le> 3000" by (simp add: ex_defs)
  have b: "req_startTime (body ex_republish) =
             Truthy (iso_instant ''1970-01-01T00:00:05.000Z'' 5000)"
          "req_endTime (body ex_republish) =
             Truthy (iso_instant ''1970-01-01T00:00:06.000Z'' 6000)"
    by (simp_all add: ex_republish_def ex_body_def)
  have d: "\<not> date_lt (newDate (iso_instant ''1970-01-01T00:00:05.000Z'' 5000)) 3000"
          "\<not> date_ge (newDate (iso_instant ''1970-01-01T00:00:05.000Z'' 5000))
                      (newDate (iso_instant ''1970-01-01T00:00:06.000Z'' 6000))"
    by (simp_all add: date_lt_def date_ge_def iso_instant_def)
  have w: "highestBidder ex_auction = Some 7" by (simp add: ex_defs)
  have u: "User_findById ex_orphaned 7 = None"
    by (simp add: ex_orphaned_def ex_defs User_findById_def)
  from republish_missing_winner_aborts [OF ex_params f e b d w u] f w u show ?thesis by simp
qed

section \<open>Closing and republishing\<close>

lemma closeAuction_settles:
  assumes "Auction_findById s i = Some a" and "endTime a \<le> now" and "\<not> commissionCalculated a"
    and "highestBidder a = Some w" and "User_findById s w = Some u"
  shows "User_findById (closeAuction commission now i s) w =
           Some (u\<lparr>moneySpent := js_add (moneySpent u) (currentBid a),
                   auctionsWon := js_add (auctionsWon u) (Fin 1),
                   unpaidCommission := js_add (unpaidCommission u) (commission (currentBid a))\<rparr>)
       \<and> Auction_findById (closeAuction commission now i s) i = Some (a\<lparr>commissionCalculated := True\<rparr>)"
  using assms
  by (simp add: closeAuction_def Let_def User_findById_def Auction_findById_def find_updateOne)

text \<open>
  Claim C9 as stated fails: the settlement adds and the republish subtracts in the
  arithmetic of JavaScript numbers, and the sum is rounded. With \<open>moneySpent = 500.1\<close> and
  \<open>currentBid = 200.2\<close> the close leaves \<open>700.3\<close> and the republish
  \<open>500.09999999999997\<close>, not \<open>500.1\<close>.
\<close>

theorem close_then_republish_counterexample:
  "Auction_findById ex_due_fraction 1 =
     Some (ex_auction\<lparr>currentBid := Fin d200_2, commissionCalculated := False\<rparr>)
   \<and> endTime ex_auction \<le> 2500 \<and> highestBidder ex_auction = Some 7
   \<and> User_findById ex_due_fraction 7 =
       Some \<lparr>u_id = 7, moneySpent = Fin d500_1, auctionsWon = Fin 2, unpaidCommission = Fin 25\<rparr>
   \<and> User_findById (closeAuction (\<lambda>b. Fin 10) 2500 1 ex_due_fraction) 7 =
       Some \<lparr>u_id = 7, moneySpent = Fin d700_3, auctionsWon = Fin 3, unpaidCommission = Fin 35\<rparr>
   \<and> fst (republishItem ex_republish 3000 3000 (closeAuction (\<lambda>b. Fin 10) 2500 1 ex_due_fraction)) =
       Json 200 (ex_auction\<lparr>startTime := 5000, endTime := 6000, bids := [],
                   commissionCalculated := False, currentBid := Fin 0, highestBidder := None\<rparr>,
                 ''Auction republished and will be active on 1970-01-01T00:00:05.000Z'')
   \<and> User_findById
        (snd (republishItem ex_republish 3000 3000 (closeAuction (\<lambda>b. Fin 10) 2500 1 ex_due_fraction)))
        7 =
       Some \<lparr>u_id = 7, moneySpent = Fin d500_09999999999997, auctionsWon = Fin 2,
              unpaidCommission = Fin 35\<rparr>
   \<and> d500_09999999999997 \<noteq> d500_1"
proof -
  have "d500_09999999999997 \<noteq> d500_1"
    by (simp add: d500_09999999999997_def d500_1_def)
  then show ?thesis
    by (simp add: ex_due_fraction_def ex_defs republish_defs closeAuction_def
          ex_add_500_1 ex_sub_700_3 del: js_add.simps)
qed

text \<open>
  Claim C9, amended. For a closed auction with a winner whose settlement sums
  \<open>moneySpent + currentBid\<close> and \<open>auctionsWon + 1\<close> are themselves doubles, so that the
  close adds without rounding (as it does for whole numbers up to \<open>2^53\<close>, lemma
  \<open>round64_int\<close>), the close settlement followed by one successful republish leaves the
  winner's \<open>moneySpent\<close> and \<open>auctionsWon\<close> at their values before the close. The
  hypotheses \<open>round64 m = Fin m\<close> and \<open>round64 n = Fin n\<close> say that the stored figures are
  doubles.
\<close>

theorem close_then_republish_restores:
  assumes "params_id req = Oid i" and "Auction_findById s i = Some a"
    and "endTime a \<le> now" and "\<not> commissionCalculated a"
    and "highestBidder a = Some w" and "User_findById s w = Some u"
    and "moneySpent u = Fin m" and "round64 m = Fin m"
    and "currentBid a = Fin b" and "round64 (m + b) = Fin (m + b)"
    and "auctionsWon u = Fin n" and "round64 n = Fin n"
    and "round64 (n + 1) = Fin (n + 1)"
    and "republishItem req now1 now2 (closeAuction commission now i s) = (Json c p, s')"
  shows "\<exists>u1 u'. User_findById (closeAuction commission now i s) w = Some u1 \<and>
           moneySpent u1 = Fin (m + b) \<and> auctionsWon u1 = Fin (n + 1) \<and>
           User_findById s' w = Some u' \<and>
           moneySpent u' = moneySpent u \<and> auctionsWon u' = auctionsWon u"
proof -
  note cl = closeAuction_settles [OF assms(2-6), of commission]
  from cl have f: "Auction_findById (closeAuction commission now i s) i =
                     Some (a\<lparr>commissionCalculated := True\<rparr>)" ..
  have w: "highestBidder (a\<lparr>commissionCalculated := True\<rparr>) = Some w"
    using assms(5) by simp
  from republish_winner [OF assms(1) f assms(14) w] cl obtain u' where
    u': "User_findById s' w = Some u'"
        "moneySpent u' = js_sub (js_add (moneySpent u) (currentBid a)) (currentBid a)"
        "auctionsWon u' = js_sub (js_add (auctionsWon u) (Fin 1)) (Fin 1)"
    by auto
  have "js_sub (js_add (Fin m) (Fin b)) (Fin b) = Fin m"
    using assms(8,10) by (simp add: js_sub_def)
  moreover have "js_sub (js_add (Fin n) (Fin 1)) (Fin 1) = Fin n"
    using assms(12,13) by (simp add: js_sub_def)
  ultimately have "moneySpent u' = moneySpent u" "auctionsWon u' = auctionsWon u"
    using u'(2,3) assms(7,9,11) by simp_all
  with cl u'(1) assms(7,9,10,11,13) show ?thesis by simp
qed

theorem close_then_republish_restores_witness:
  "User_findById ex_due 7 =
     Some \<lparr>u_id = 7, moneySpent = Fin 500, auctionsWon = Fin 2, unpaidCommission = Fin 25\<rparr>
   \<and> (\<exists>u1 u'. User_findById (closeAuction (\<lambda>b. Fin 10) 2500 1 ex_due) 7 = Some u1 \<and>
         moneySpent u1 = Fin 700 \<and> auctionsWon u1 = Fin 3 \<and>
         User_findById
           (snd (republishItem ex_republish 3000 3000 (closeAuction (\<lambda>b. Fin 10) 2500 1 ex_due)))
           7 = Some u' \<and>
         moneySpent u' = Fin 500 \<and> auctionsWon u' = Fin 2)"
proof -
  let ?a = "ex_auction\<lparr>commissionCalculated := False\<rparr>"
  have f: "Auction_findById ex_due 1 = Some ?a"
    by (simp add: ex_due_def ex_defs Auction_findById_def)
  have e: "endTime ?a \<le> 2500" and n: "\<not> commissionCalculated ?a"
    and w: "highestBidder ?a = Some 7"
    by (simp_all add: ex_defs)
  have u: "User_findById ex_due 7 =
     Some \<lparr>u_id = 7, moneySpent = Fin 500, auctionsWon = Fin 2, unpaidCommission = Fin 25\<rparr>"
    by (simp add: ex_due_def ex_defs User_findById_def)
  have v: "moneySpent \<lparr>u_id = 7, moneySpent = Fin 500, auctionsWon = Fin 2,
                        unpaidCommission = Fin 25\<rparr> = Fin 500"
          "round64 500 = Fin 500" "currentBid ?a = Fin 200" "round64 (500 + 200) = Fin (500 + 200)"
          "auctionsWon \<lparr>u_id = 7, moneySpent = Fin 500, auctionsWon = Fin 2,
                         unpaidCommission = Fin 25\<rparr> = Fin 2"
          "round64 2 = Fin 2" "round64 (2 + 1) = Fin (2 + 1)"
    using round64_int [of 500] round64_int [of 700] round64_int [of 2] round64_int [of 3]
    by (simp_all add: ex_defs)
  have "\<exists>p. republishItem ex_republish 3000 3000 (closeAuction (\<lambda>b. Fin 10) 2500 1 ex_due) =
          (Json 200 p,
           snd (republishItem ex_republish 3000 3000 (closeAuction (\<lambda>b. Fin 10) 2500 1 ex_due)))"
    by (simp add: ex_due_def ex_defs republish_defs closeAuction_def del: js_add.simps)
  then obtain p where
    r: "republishItem ex_republish 3000 3000 (closeAuction (\<lambda>b. Fin 10) 2500 1 ex_due) =
          (Json 200 p,
           snd (republishItem ex_republish 3000 3000 (closeAuction (\<lambda>b. Fin 10) 2500 1 ex_due)))" ..
  from close_then_republish_restores [OF ex_params f e n w u v r] u show ?thesis
    by simp
qed

section \<open>Listing and details\<close>

text \<open>
  Claim C8. The listing returns the stored auctions, each with its \<open>bids\<close> field left out
  and its other fields as stored. The detail operation returns, for every existing
  auction, the auction's populated bids in descending order of amount, as \<open>bidders\<close> and
  in the auction of the response.
\<close>

theorem listing_and_details:
  "(\<exists>items. getAllItems s = Json 200 items \<and>
        map bids items = replicate (length (Auction s)) None \<and>
        map (withBids ()) items = map (withBids ()) (Auction s))
   \<and> (\<forall>i a. Auction_findById s i = Some a \<longrightarrow>
        (\<exists>v bidders. getAuctionDetails (Oid i) s = Json 200 (v, bidders) \<and>
            sorted_wrt (\<lambda>x y. amount x \<ge> amount y) bidders \<and>
            mset bidders = mset (populate s (bids a)) \<and>
            bids v = bidders \<and> withBids () v = withBids () a))"
proof
  have "map bids (map (withBids (None :: oid list option)) xs) = replicate (length xs) None"
    for xs :: "oid list auction list"
    by (induction xs) (simp_all add: withBids_def)
  moreover have "map (withBids ()) (map (withBids (None :: oid list option)) xs) = map (withBids ()) xs"
    for xs :: "oid list auction list"
    by (simp add: withBids_def)
  ultimately show "\<exists>items. getAllItems s = Json 200 items \<and>
        map bids items = replicate (length (Auction s)) None \<and>
        map (withBids ()) items = map (withBids ()) (Auction s)"
    by (simp add: getAllItems_def)
next
  show "\<forall>i a. Auction_findById s i = Some a \<longrightarrow>
        (\<exists>v bidders. getAuctionDetails (Oid i) s = Json 200 (v, bidders) \<and>
            sorted_wrt (\<lambda>x y. amount x \<ge> amount y) bidders \<and>
            mset bidders = mset (populate s (bids a)) \<and>
            bids v = bidders \<and> withBids () v = withBids () a)"
    by (simp add: getAuctionDetails_def Let_def sortBy_desc sortBy_mset withBids_def)
qed

theorem listing_and_details_witness:
  "(\<exists>items. getAllItems ex_store = Json 200 items \<and> map bids items = [None, None, None])
   \<and> (\<exists>v bidders. getAuctionDetails (Oid 1) ex_store = Json 200 (v, bidders) \<and>
          sorted_wrt (\<lambda>x y. amount x \<ge> amount y) bidders \<and>
          mset bidders = {#\<lparr>b_id = 11, auctionItem = 1, bidder = 8, amount = 150\<rparr>,
                           \<lparr>b_id = 12, auctionItem = 1, bidder = 7, amount = 200\<rparr>#})"
proof -
  have p: "populate ex_store (bids ex_auction) =
             [\<lparr>b_id = 11, auctionItem = 1, bidder = 8, amount = 150\<rparr>,
              \<lparr>b_id = 12, auctionItem = 1, bidder = 7, amount = 200\<rparr>]"
    by (simp add: populate_def ex_defs Bid_findById_def List.map_filter_simps)
  have l: "length (Auction ex_store) = 3" by (simp add: ex_defs)
  have a: "\<exists>items. getAllItems ex_store = Json 200 items \<and> map bids items = [None, None, None]"
    using listing_and_details [of ex_store, THEN conjunct1] l
    by (auto simp: numeral_3_eq_3)
  have b: "\<exists>v bidders. getAuctionDetails (Oid 1) ex_store = Json 200 (v, bidders) \<and>
          sorted_wrt (\<lambda>x y. amount x \<ge> amount y) bidders \<and>
          mset bidders = {#\<lparr>b_id = 11, auctionItem = 1, bidder = 8, amount = 150\<rparr>,
                           \<lparr>b_id = 12, auctionItem = 1, bidder = 7, amount = 200\<rparr>#}"
    using listing_and_details [of ex_store, THEN conjunct2, rule_format, OF ex_found] p
    by auto
  from a b show ?thesis ..
qed

section \<open>Creating an auction\<close>

lemmas create_defs = addNewAuctionItem_def Auction_create_def allowedFormats_def
  date_lt_def date_ge_def ErrorHandler_def TypeError_def validationError_def Let_def

text \<open>
  Claim C1 as stated fails twice. The query of the controller selects the seller's
  auctions whose ending time is after now, whether or not they have started: a seller
  whose only unfinished auction starts later has no active auction and is blocked all
  the same. And the conflict is tested after the image, the fields and the schedule: a
  request without an image by a seller with an active auction fails with the image
  error.
\<close>

theorem create_conflict_counterexample:
  "Auction ex_scheduled = [ex_auction, ex_upcoming]
   \<and> endTime ex_auction \<le> 3000 \<and> 3000 < startTime ex_upcoming
   \<and> addNewAuctionItem ex_create 3000 3000 (Uploaded ''p9'' ''https://img/p9'') 9 ex_scheduled =
       (Next (ErrorHandler ''You already have one active auction.'' (Some 400)), ex_scheduled)
   \<and> Auction ex_store = [ex_auction, ex_unsold, ex_running]
   \<and> createdBy ex_running = 9 \<and> startTime ex_running \<le> 3000 \<and> 3000 < endTime ex_running
   \<and> addNewAuctionItem (ex_create\<lparr>user_id := 9, files := None\<rparr>) 3000 3000
         (Uploaded ''p9'' ''https://img/p9'') 9 ex_store =
       (Next (ErrorHandler ''Auction item image is required.'' (Some 400)), ex_store)"
  by (simp add: ex_create_def ex_scheduled_def ex_upcoming_def ex_defs create_defs)

text \<open>
  Claim C1, amended. If the seller has an auction whose ending time is after now (running
  or not yet started), a create request fails and the store is as it was, and a request
  that passes the checks on the image, the fields and the schedule fails with ``You
  already have one active auction.'' (status 400). A seller none of whose auctions ends
  after now never gets that error.
\<close>

theorem create_blocked_by_unfinished_auction:
  "((\<exists>a \<in> set (Auction s). createdBy a = user_id req \<and> now2 < endTime a) \<longrightarrow>
      snd (addNewAuctionItem req now1 now2 up newId s) = s \<and>
      (\<forall>c p. fst (addNewAuctionItem req now1 now2 up newId s) \<noteq> Json c p) \<and>
      (\<forall>fs img t d c k b st et.
         files req = Some fs \<and> map_of fs ''image'' = Some img \<and>
         mimetype img \<in> set allowedFormats \<and>
         req_title (body req) = Truthy t \<and> req_description (body req) = Truthy d \<and>
         req_category (body req) = Truthy c \<and> req_condition (body req) = Truthy k \<and>
         req_startingBid (body req) = Truthy b \<and>
         req_startTime (body req) = Truthy st \<and> req_endTime (body req) = Truthy et \<and>
         \<not> date_lt (newDate st) now1 \<and> \<not> date_ge (newDate st) (newDate et) \<longrightarrow>
         fst (addNewAuctionItem req now1 now2 up newId s) =
           Next (ErrorHandler ''You already have one active auction.'' (Some 400))))
   \<and> (\<not> (\<exists>a \<in> set (Auction s). createdBy a = user_id req \<and> now2 < endTime a) \<longrightarrow>
        fst (addNewAuctionItem req now1 now2 up newId s) \<noteq>
          Next (ErrorHandler ''You already have one active auction.'' (Some 400)))"
proof (intro conjI impI allI)
  assume "\<exists>a \<in> set (Auction s). createdBy a = user_id req \<and> now2 < endTime a"
  then have unfinished:
    "filter (\<lambda>a. createdBy a = user_id req \<and> endTime a > now2) (Auction s) \<noteq> []"
    by (simp add: filter_empty_conv)
  then show "snd (addNewAuctionItem req now1 now2 up newId s) = s"
    by (simp add: addNewAuctionItem_def split: option.splits field.splits)
  from unfinished show "fst (addNewAuctionItem req now1 now2 up newId s) \<noteq> Json c p" for c p
    by (simp add: addNewAuctionItem_def split: option.splits field.splits)
  fix fs img t d c k b st et
  assume "files req = Some fs \<and> map_of fs ''image'' = Some img \<and>
         mimetype img \<in> set allowedFormats \<and>
         req_title (body req) = Truthy t \<and> req_description (body req) = Truthy d \<and>
         req_category (body req) = Truthy c \<and> req_condition (body req) = Truthy k \<and>
         req_startingBid (body req) = Truthy b \<and>
         req_startTime (body req) = Truthy st \<and> req_endTime (body req) = Truthy et \<and>
         \<not> date_lt (newDate st) now1 \<and> \<not> date_ge (newDate st) (newDate et)"
  with unfinished show "fst (addNewAuctionItem req now1 now2 up newId s) =
           Next (ErrorHandler ''You already have one active auction.'' (Some 400))"
    by (auto simp: addNewAuctionItem_def)
next
  assume "\<not> (\<exists>a \<in> set (Auction s). createdBy a = user_id req \<and> now2 < endTime a)"
  then have "filter (\<lambda>a. createdBy a = user_id req \<and> endTime a > now2) (Auction s) = []"
    by (simp add: filter_empty_conv)
  then show "fst (addNewAuctionItem req now1 now2 up newId s) \<noteq>
          Next (ErrorHandler ''You already have one active auction.'' (Some 400))"
    by (simp add: addNewAuctionItem_def ErrorHandler_def
             split: option.splits field.splits upload_result.splits sum.splits prod.splits)
qed

theorem create_blocked_by_unfinished_auction_witness:
  "addNewAuctionItem ex_create 3000 3000 (Uploaded ''p9'' ''https://img/p9'') 9 ex_scheduled =
     (Next (ErrorHandler ''You already have one active auction.'' (Some 400)), ex_scheduled)
   \<and> fst (addNewAuctionItem ex_create 3000 3000 (Uploaded ''p9'' ''https://img/p9'') 9 ex_store) \<noteq>
       Next (ErrorHandler ''You already have one active auction.'' (Some 400))"
proof -
  let ?up = "Uploaded ''p9'' ''https://img/p9''"
  have blocked: "\<exists>a \<in> set (Auction ex_scheduled). createdBy a = user_id ex_create \<and> 3000 < endTime a"
    by (simp add: ex_create_def ex_scheduled_def ex_upcoming_def ex_defs)
  have free: "\<not> (\<exists>a \<in> set (Auction ex_store). createdBy a = user_id ex_create \<and> 3000 < endTime a)"
    by (simp add: ex_create_def ex_defs)
  have valid:
    "files ex_create =
       Some [(''image'', \<lparr>mimetype = ''image/png'', tempFilePath = ''/tmp/upload-1''\<rparr>)] \<and>
     map_of [(''image'', \<lparr>mimetype = ''image/png'', tempFilePath = ''/tmp/upload-1''\<rparr>)] ''image'' =
       Some \<lparr>mimetype = ''image/png'', tempFilePath = ''/tmp/upload-1''\<rparr> \<and>
     mimetype \<lparr>mimetype = ''image/png'', tempFilePath = ''/tmp/upload-1''\<rparr> \<in> set allowedFormats \<and>
     req_title (body ex_create) = Truthy ''Clock'' \<and>
     req_description (body ex_create) = Truthy ''Wall clock'' \<and>
     req_category (body ex_create) = Truthy ''Home'' \<and>
     req_condition (body ex_create) = Truthy ''New'' \<and>
     req_startingBid (body ex_create) = Truthy (Fin 50) \<and>
     req_startTime (body ex_create) =
       Truthy (iso_instant ''1970-01-01T00:00:05.000Z'' 5000) \<and>
     req_endTime (body ex_create) =
       Truthy (iso_instant ''1970-01-01T00:00:06.000Z'' 6000) \<and>
     \<not> date_lt (newDate (iso_instant ''1970-01-01T00:00:05.000Z'' 5000)) 3000 \<and>
     \<not> date_ge (newDate (iso_instant ''1970-01-01T00:00:05.000Z'' 5000))
                 (newDate (iso_instant ''1970-01-01T00:00:06.000Z'' 6000))"
    by (simp add: ex_create_def ex_body_def allowedFormats_def date_lt_def date_ge_def
          iso_instant_def)
  note blocked_case = create_blocked_by_unfinished_auction
    [where req = ex_create and s = ex_scheduled and ?now1.0 = 3000 and ?now2.0 = 3000 and up = ?up and newId = 9]
  from blocked_case blocked have 1: "snd (addNewAuctionItem ex_create 3000 3000 ?up 9 ex_scheduled) = ex_scheduled"
    by blast
  from blocked_case blocked valid
  have 2: "fst (addNewAuctionItem ex_create 3000 3000 ?up 9 ex_scheduled) =
             Next (ErrorHandler ''You already have one active auction.'' (Some 400))"
    by blast
  from create_blocked_by_unfinished_auction
    [where req = ex_create and s = ex_store and ?now1.0 = 3000 and ?now2.0 = 3000 and up = ?up and newId = 9] free
  have 3: "fst (addNewAuctionItem ex_create 3000 3000 ?up 9 ex_store) \<noteq>
             Next (ErrorHandler ''You already have one active auction.'' (Some 400))"
    by blast
  from 1 2 3 show ?thesis by (simp add: prod_eq_iff)
qed

text \<open>
  Claim C2. The controller rejects a starting time below the clock reading, with the
  message that it ``must be greater than the present time''. A starting time equal to
  the reading passes the test: the request below, at the instant 3000 with a starting
  time of 3000, creates the auction.
\<close>

theorem create_at_present_instant:
  "req_startTime (body ex_create_now) =
     Truthy \<lparr>raw = ''1970-01-01T00:00:03.000Z'', newDate = Some 3000, castDate = Some 3000\<rparr>
   \<and> addNewAuctionItem ex_create_now 3000 3000 (Uploaded ''p9'' ''https://img/p9'') 9 ex_store =
       (Json 201
          (ex_created,
           ''Auction item created and will be listed on the auction page at 1970-01-01T00:00:03.000Z''),
        ex_store\<lparr>Auction := [ex_auction, ex_unsold, ex_running, ex_created]\<rparr>)"
  by (simp add: ex_create_now_def ex_created_def ex_create_def ex_defs create_defs)

text \<open>
  What the two schedule tests do enforce: a starting time below the first clock reading,
  or not below the ending time, creates nothing; the request ends with a status 400
  error, or with the TypeError of a file list without an \<open>image\<close> entry.
\<close>

lemma create_rejects_bad_schedule:
  assumes "req_startTime (body req) = Truthy st" and "req_endTime (body req) = Truthy et"
    and "newDate st = Some t1" and "newDate et = Some t2" and "t1 < now1 \<or> t1 \<ge> t2"
  shows "snd (addNewAuctionItem req now1 now2 up newId s) = s \<and>
         ((\<exists>m. fst (addNewAuctionItem req now1 now2 up newId s) = Next (ErrorHandler m (Some 400))) \<or>
          fst (addNewAuctionItem req now1 now2 up newId s) = Thrown (TypeError ''mimetype''))"
  using assms
  by (auto simp: addNewAuctionItem_def date_lt_def date_ge_def split: option.splits field.splits)

section \<open>A republish that fails midway\<close>

text \<open>
  A starting time that \<open>new Date\<close> does not read passes both schedule tests of
  \<open>republishItem\<close> (every comparison with NaN is false); if the store cannot cast it
  either, the update fails, after the reversal has been saved.
\<close>

lemma republish_cast_error_keeps_reversal:
  assumes "params_id req = Oid i" and "Auction_findById s i = Some a" and "endTime a \<le> now1"
    and "req_startTime (body req) = Truthy st" and "newDate st = None" and "castDate st = None"
    and "req_endTime (body req) = Truthy et"
    and "highestBidder a = Some w" and "User_findById s w = Some u"
    and "js_sub (moneySpent u) (currentBid a) \<noteq> NaN" and "js_sub (auctionsWon u) (Fin 1) \<noteq> NaN"
  shows "\<exists>s'. republishItem req now1 now2 s = (Thrown (CastError ''startTime'' (raw st)), s') \<and>
           Auction s' = Auction s \<and>
           User_findById s' w = Some (u\<lparr>moneySpent := js_sub (moneySpent u) (currentBid a),
                                          auctionsWon := js_sub (auctionsWon u) (Fin 1)\<rparr>)"
  using assms
  by (simp add: republishItem_def reverseSettlement_def resetAuction_def date_lt_def date_ge_def
        User_findById_def find_updateOne Let_def)

end
